theory Spec2Isabelle
  imports Main "HOL-Library.Word"
begin

unbundle bit_operations_syntax

section \<open>Index element types\<close>

text \<open>
  The index manager of the D3D renderer translates GL index data (elements of type
  \<^verbatim>\<open>GL_UNSIGNED_BYTE\<close>, \<^verbatim>\<open>GL_UNSIGNED_SHORT\<close> or \<^verbatim>\<open>GL_UNSIGNED_INT\<close>) into index data a
  D3D device accepts. Draw validation admits these three element types only, so the
  \<^verbatim>\<open>GLenum\<close> arguments \<^verbatim>\<open>srcType\<close> and \<^verbatim>\<open>dstType\<close> range over a closed datatype.

  Machine integers keep their width: \<^verbatim>\<open>unsigned int\<close> and \<^verbatim>\<open>GLuint\<close> are 32-bit words,
  \<^verbatim>\<open>GLsizei\<close> is a 32-bit word read in two's complement (\<open>sint\<close>), \<^verbatim>\<open>size_t\<close> is a 64-bit
  word. Memory is a list of bytes; a pointer into it is the list of the bytes from that
  address on, and multi-byte elements are little-endian, as on every Direct3D target.
\<close>

datatype GLenum = GL_UNSIGNED_BYTE | GL_UNSIGNED_SHORT | GL_UNSIGNED_INT

type_synonym GLubyte = "8 word"
type_synonym GLushort = "16 word"
type_synonym GLuint = "32 word"
type_synonym GLsizei = "32 word"
type_synonym size_t = "64 word"

record Type =
  bytes :: GLuint
  bytesShift :: nat

text \<open>
  Modelled from the spec: \<^verbatim>\<open>gl::GetTypeInfo\<close> (formatutils) is not among the sources. The
  data model gives every element width its byte size and the bit shift that scales by it.
\<close>

fun GetTypeInfo :: "GLenum \<Rightarrow> Type" where
  "GetTypeInfo GL_UNSIGNED_BYTE = \<lparr>bytes = 1, bytesShift = 0\<rparr>"
| "GetTypeInfo GL_UNSIGNED_SHORT = \<lparr>bytes = 2, bytesShift = 1\<rparr>"
| "GetTypeInfo GL_UNSIGNED_INT = \<lparr>bytes = 4, bytesShift = 2\<rparr>"

text \<open>
  Modelled from the spec: \<^verbatim>\<open>gl::GetPrimitiveRestartIndex\<close> (common/utilities) is not among
  the sources. The restart sentinel of a width is the maximum value representable at it.
\<close>

fun GetPrimitiveRestartIndex :: "GLenum \<Rightarrow> GLuint" where
  "GetPrimitiveRestartIndex GL_UNSIGNED_BYTE = 0xFF"
| "GetPrimitiveRestartIndex GL_UNSIGNED_SHORT = 0xFFFF"
| "GetPrimitiveRestartIndex GL_UNSIGNED_INT = 0xFFFFFFFF"

text \<open>The width of an element type in bits, for comparing widths.\<close>

fun typeBits :: "GLenum \<Rightarrow> nat" where
  "typeBits GL_UNSIGNED_BYTE = 8"
| "typeBits GL_UNSIGNED_SHORT = 16"
| "typeBits GL_UNSIGNED_INT = 32"

subsection \<open>Typed views of memory\<close>

text \<open>
  \<^verbatim>\<open>static_cast<const GLushort *>(input)\<close> reads the bytes at \<^verbatim>\<open>input\<close> two at a time, and a
  store through a \<^verbatim>\<open>GLushort *\<close> or \<^verbatim>\<open>GLuint *\<close> writes two or four bytes. A trailing
  fragment shorter than an element is not an element.
\<close>

fun load_GLushorts :: "GLubyte list \<Rightarrow> GLushort list" where
  "load_GLushorts (b0 # b1 # bs) = (ucast b0 OR push_bit 8 (ucast b1)) # load_GLushorts bs"
| "load_GLushorts _ = []"

definition store_GLushort :: "GLushort \<Rightarrow> GLubyte list" where
  "store_GLushort w = [ucast w, ucast (drop_bit 8 w)]"

definition store_GLushorts :: "GLushort list \<Rightarrow> GLubyte list" where
  "store_GLushorts ws = concat (map store_GLushort ws)"

fun load_GLuints :: "GLubyte list \<Rightarrow> GLuint list" where
  "load_GLuints (b0 # b1 # b2 # b3 # bs) =
     (ucast b0 OR push_bit 8 (ucast b1) OR push_bit 16 (ucast b2) OR push_bit 24 (ucast b3))
       # load_GLuints bs"
| "load_GLuints _ = []"

definition store_GLuint :: "GLuint \<Rightarrow> GLubyte list" where
  "store_GLuint w = [ucast w, ucast (drop_bit 8 w), ucast (drop_bit 16 w), ucast (drop_bit 24 w)]"

definition store_GLuints :: "GLuint list \<Rightarrow> GLubyte list" where
  "store_GLuints ws = concat (map store_GLuint ws)"

section \<open>The converter\<close>

text \<open>
  \<^verbatim>\<open>ConvertIndexArray<InputT, DestT>\<close>: the loop writes \<^verbatim>\<open>out[i]\<close> for \<^verbatim>\<open>0 <= i < count\<close> with a
  signed \<^verbatim>\<open>count\<close>, so a negative count writes nothing. The caller owns \<^verbatim>\<open>count\<close> readable
  elements; a shorter input yields the elements there are. Both restart indices are
  truncated to their element type by the \<^verbatim>\<open>static_cast\<close>.
\<close>

definition ConvertIndexArray ::
  "'a::len word list \<Rightarrow> GLenum \<Rightarrow> GLenum \<Rightarrow> GLsizei \<Rightarrow> bool \<Rightarrow> 'b::len word list" where
  "ConvertIndexArray input sourceType destinationType count usePrimitiveRestartFixedIndex =
     (if usePrimitiveRestartFixedIndex then
        (let srcRestartIndex = (ucast (GetPrimitiveRestartIndex sourceType) :: 'a word);
             destRestartIndex = (ucast (GetPrimitiveRestartIndex destinationType) :: 'b word)
         in map (\<lambda>x. if x = srcRestartIndex then destRestartIndex else ucast x)
              (take (nat (sint count)) input))
      else map ucast (take (nat (sint count)) input))"

text \<open>
  An \<^verbatim>\<open>ASSERT\<close> that fails and \<^verbatim>\<open>UNREACHABLE()\<close> stop a checked build. The converter has
  no error return of its own; the model gives that stop a value, \<open>ContractViolation\<close>, so
  that reaching it is an outcome of the caller. \<open>OutOfMemory\<close> is the error created by
  \<^verbatim>\<open>StreamInIndexBuffer\<close>; \<open>CollaboratorError\<close> carries an error returned by a buffer object.
\<close>

datatype error = OutOfMemory | CollaboratorError nat | ContractViolation

definition ConvertIndices ::
  "GLenum \<Rightarrow> GLenum \<Rightarrow> GLubyte list \<Rightarrow> GLsizei \<Rightarrow> bool \<Rightarrow> error + GLubyte list" where
  "ConvertIndices sourceType destinationType input count usePrimitiveRestartFixedIndex =
     (if sourceType = destinationType then
        Inr (take (unat (count * bytes (GetTypeInfo destinationType))) input)
      else if sourceType = GL_UNSIGNED_BYTE then
        (if destinationType = GL_UNSIGNED_SHORT then
           Inr (store_GLushorts (ConvertIndexArray input sourceType destinationType count
                  usePrimitiveRestartFixedIndex))
         else Inl ContractViolation)
      else if sourceType = GL_UNSIGNED_SHORT then
        (if destinationType = GL_UNSIGNED_INT then
           Inr (store_GLuints (ConvertIndexArray (load_GLushorts input) sourceType
                  destinationType count usePrimitiveRestartFixedIndex))
         else Inl ContractViolation)
      else Inl ContractViolation)"

section \<open>Collaborators\<close>

text \<open>
  The index buffer objects (\<^verbatim>\<open>IndexBufferInterface\<close> and its streaming and static
  subclasses) and \<^verbatim>\<open>BufferD3D\<close> are declared and implemented outside the sources at hand.
  Their state is a type parameter \<open>'ib\<close>, and their methods are the fields of one record
  of collaborators that every function below receives. A method that returns \<^verbatim>\<open>gl::Error\<close>
  yields an error code or nothing, together with the object's new state. \<open>mapBuffer\<close>
  yields the offset of the mapped region; \<open>writeMapped\<close> is the store through the mapped
  pointer. The header's constant \<^verbatim>\<open>INITIAL_INDEX_BUFFER_SIZE\<close> and the object made by
  \<^verbatim>\<open>new StreamingIndexBufferInterface(mFactory)\<close> are fields as well.
\<close>

record 'ib BufferD3D =
  mSize :: size_t
  mSupportsDirectBinding :: bool
  mSerial :: nat
  mStaticIndexBuffer :: "'ib option"
  mData :: "nat + GLubyte list"

record 'ib Collaborators =
  reserveBufferSpace :: "'ib \<Rightarrow> GLuint \<Rightarrow> GLenum \<Rightarrow> nat option \<times> 'ib"
  mapBuffer :: "'ib \<Rightarrow> GLuint \<Rightarrow> (nat + GLuint) \<times> 'ib"
  writeMapped :: "'ib \<Rightarrow> GLubyte list \<Rightarrow> 'ib"
  unmapBuffer :: "'ib \<Rightarrow> nat option \<times> 'ib"
  getIndexBuffer :: "'ib \<Rightarrow> nat"
  getSerial :: "'ib \<Rightarrow> nat"
  getBufferSize :: "'ib \<Rightarrow> GLuint"
  getIndexType :: "'ib \<Rightarrow> GLenum"
  newStreamingIndexBufferInterface :: "'ib"
  INITIAL_INDEX_BUFFER_SIZE :: GLuint
  invalidateStaticData :: "'ib BufferD3D \<Rightarrow> 'ib BufferD3D"
  promoteStaticUsage :: "'ib BufferD3D \<Rightarrow> GLsizei \<Rightarrow> 'ib BufferD3D"

text \<open>
  Every call of a method that changes a collaborator is logged, in order, so that what was
  called, on which object and with which arguments can be stated. \<open>Write\<close> carries the
  bytes \<^verbatim>\<open>ConvertIndices\<close> stored in the mapped region.
\<close>

datatype which = StreamingShort | StreamingInt | StaticIndex

datatype event =
    NewStreaming which
  | Reserve which GLuint GLenum
  | Map which GLuint
  | Write which "GLubyte list"
  | Unmap which
  | GetData
  | Invalidate
  | Promote GLsizei

section \<open>The manager and the translated descriptor\<close>

datatype RendererClass = RENDERER_D3D11 | RENDERER_D3D9

record 'ib IndexDataManager =
  mRendererClass :: RendererClass
  mStreamingBufferShort :: "'ib option"
  mStreamingBufferInt :: "'ib option"

text \<open>
  \<^verbatim>\<open>TranslatedIndexData\<close>, with the fields the manager reads or writes. A pointer to an
  object is the object's address, \<open>None\<close> for \<^verbatim>\<open>nullptr\<close>.
\<close>

record IndexRange =
  rangeEnd :: size_t
  vertexIndexCount :: size_t

record SourceIndexData =
  srcBuffer :: "nat option"
  srcIndices :: nat
  srcIndexType :: GLenum
  srcCount :: GLsizei

record TranslatedIndexData =
  indexRange :: IndexRange
  startIndex :: GLuint
  startOffset :: GLuint
  indexBuffer :: "nat option"
  storage :: "nat option"
  indexType :: GLenum
  serial :: nat
  srcIndexData :: SourceIndexData

section \<open>Streaming into an index buffer\<close>

definition StreamInIndexBuffer ::
  "'ib Collaborators \<Rightarrow> which \<Rightarrow> 'ib \<Rightarrow> GLubyte list \<Rightarrow> GLuint \<Rightarrow> GLenum \<Rightarrow> GLenum \<Rightarrow> bool
     \<Rightarrow> (error + GLuint) \<times> 'ib \<times> event list" where
  "StreamInIndexBuffer C w buffer data count srcType dstType usePrimitiveRestartFixedIndex =
     (let dstTypeInfo = GetTypeInfo dstType in
      if count > drop_bit (bytesShift dstTypeInfo) (- 1) then (Inl OutOfMemory, buffer, [])
      else
        let bufferSizeRequired = push_bit (bytesShift dstTypeInfo) count in
        case reserveBufferSpace C buffer bufferSizeRequired dstType of
          (Some e, b1) \<Rightarrow>
            (Inl (CollaboratorError e), b1, [Reserve w bufferSizeRequired dstType])
        | (None, b1) \<Rightarrow>
            (case mapBuffer C b1 bufferSizeRequired of
               (Inl e, b2) \<Rightarrow>
                 (Inl (CollaboratorError e), b2,
                  [Reserve w bufferSizeRequired dstType, Map w bufferSizeRequired])
             | (Inr offset, b2) \<Rightarrow>
                 (case ConvertIndices srcType dstType data count usePrimitiveRestartFixedIndex of
                    Inl e \<Rightarrow>
                      (Inl e, b2, [Reserve w bufferSizeRequired dstType, Map w bufferSizeRequired])
                  | Inr output \<Rightarrow>
                      (case unmapBuffer C (writeMapped C b2 output) of
                         (Some e, b3) \<Rightarrow>
                           (Inl (CollaboratorError e), b3,
                            [Reserve w bufferSizeRequired dstType, Map w bufferSizeRequired,
                             Write w output, Unmap w])
                       | (None, b3) \<Rightarrow>
                           (Inr offset, b3,
                            [Reserve w bufferSizeRequired dstType, Map w bufferSizeRequired,
                             Write w output, Unmap w])))))"

section \<open>The format policy\<close>

definition UsePrimitiveRestartWorkaround :: "bool \<Rightarrow> GLenum \<Rightarrow> RendererClass \<Rightarrow> bool" where
  "UsePrimitiveRestartWorkaround primitiveRestartFixedIndexEnabled type rendererClass =
     (\<not> primitiveRestartFixedIndexEnabled \<and> type = GL_UNSIGNED_SHORT \<and>
      rendererClass = RENDERER_D3D11)"

text \<open>
  The first locals of \<^verbatim>\<open>prepareIndexData\<close>. \<^verbatim>\<open>static_cast<size_t>(count)\<close> sign-extends the
  \<^verbatim>\<open>GLsizei\<close>; the restart index, a \<^verbatim>\<open>GLuint\<close>, is zero-extended for the comparison with
  the \<^verbatim>\<open>size_t\<close> end of the range.
\<close>

definition hasPrimitiveRestartIndex :: "GLenum \<Rightarrow> GLsizei \<Rightarrow> TranslatedIndexData \<Rightarrow> bool" where
  "hasPrimitiveRestartIndex srcType count translated =
     (vertexIndexCount (indexRange translated) < (scast count :: size_t) \<or>
      rangeEnd (indexRange translated) = (ucast (GetPrimitiveRestartIndex srcType) :: size_t))"

definition primitiveRestartWorkaround ::
  "RendererClass \<Rightarrow> GLenum \<Rightarrow> GLsizei \<Rightarrow> TranslatedIndexData \<Rightarrow> bool \<Rightarrow> bool" where
  "primitiveRestartWorkaround rendererClass srcType count translated
       primitiveRestartFixedIndexEnabled =
     (UsePrimitiveRestartWorkaround primitiveRestartFixedIndexEnabled srcType rendererClass \<and>
      hasPrimitiveRestartIndex srcType count translated)"

definition dstTypeOf ::
  "RendererClass \<Rightarrow> GLenum \<Rightarrow> GLsizei \<Rightarrow> TranslatedIndexData \<Rightarrow> bool \<Rightarrow> GLenum" where
  "dstTypeOf rendererClass srcType count translated primitiveRestartFixedIndexEnabled =
     (if srcType = GL_UNSIGNED_INT \<or>
         primitiveRestartWorkaround rendererClass srcType count translated
           primitiveRestartFixedIndexEnabled
      then GL_UNSIGNED_INT else GL_UNSIGNED_SHORT)"

section \<open>The streaming buffers of the manager\<close>

text \<open>
  \<^verbatim>\<open>getStreamingIndexBuffer\<close> picks the slot for the destination type and fills it on first
  use. The pointer it hands out refers to the object in the slot, so what the caller does
  to the object is stored back into the slot (\<open>putStreamingBuffer\<close>).
\<close>

definition streamingSlot :: "GLenum \<Rightarrow> which" where
  "streamingSlot destinationIndexType =
     (if destinationIndexType = GL_UNSIGNED_INT then StreamingInt else StreamingShort)"

definition putStreamingBuffer :: "GLenum \<Rightarrow> 'ib \<Rightarrow> 'ib IndexDataManager \<Rightarrow> 'ib IndexDataManager" where
  "putStreamingBuffer destinationIndexType b m =
     (if destinationIndexType = GL_UNSIGNED_INT then m\<lparr>mStreamingBufferInt := Some b\<rparr>
      else m\<lparr>mStreamingBufferShort := Some b\<rparr>)"

definition getStreamingIndexBuffer ::
  "'ib Collaborators \<Rightarrow> 'ib IndexDataManager \<Rightarrow> GLenum
     \<Rightarrow> (error + 'ib) \<times> 'ib IndexDataManager \<times> event list" where
  "getStreamingIndexBuffer C m destinationIndexType =
     (case (if destinationIndexType = GL_UNSIGNED_INT then mStreamingBufferInt m
            else mStreamingBufferShort m) of
        Some streamingBuffer \<Rightarrow> (Inr streamingBuffer, m, [])
      | None \<Rightarrow>
          (case reserveBufferSpace C (newStreamingIndexBufferInterface C)
                  (INITIAL_INDEX_BUFFER_SIZE C) destinationIndexType of
             (Some e, newBuffer) \<Rightarrow>
               (Inl (CollaboratorError e), m,
                [NewStreaming (streamingSlot destinationIndexType),
                 Reserve (streamingSlot destinationIndexType) (INITIAL_INDEX_BUFFER_SIZE C)
                   destinationIndexType])
           | (None, newBuffer) \<Rightarrow>
               (Inr newBuffer, putStreamingBuffer destinationIndexType newBuffer m,
                [NewStreaming (streamingSlot destinationIndexType),
                 Reserve (streamingSlot destinationIndexType) (INITIAL_INDEX_BUFFER_SIZE C)
                   destinationIndexType])))"

definition streamIndexData ::
  "'ib Collaborators \<Rightarrow> 'ib IndexDataManager \<Rightarrow> GLubyte list \<Rightarrow> GLuint \<Rightarrow> GLenum \<Rightarrow> GLenum
     \<Rightarrow> bool \<Rightarrow> TranslatedIndexData
     \<Rightarrow> error option \<times> TranslatedIndexData \<times> 'ib IndexDataManager \<times> event list" where
  "streamIndexData C m data count srcType dstType usePrimitiveRestartFixedIndex translated =
     (let dstTypeInfo = GetTypeInfo dstType in
      case getStreamingIndexBuffer C m dstType of
        (Inl e, m1, ev1) \<Rightarrow> (Some e, translated, m1, ev1)
      | (Inr indexBuffer', m1, ev1) \<Rightarrow>
          (case StreamInIndexBuffer C (streamingSlot dstType) indexBuffer' data count srcType
                  dstType usePrimitiveRestartFixedIndex of
             (Inl e, b, ev2) \<Rightarrow> (Some e, translated, putStreamingBuffer dstType b m1, ev1 @ ev2)
           | (Inr offset, b, ev2) \<Rightarrow>
               (None,
                translated\<lparr>indexBuffer := Some (getIndexBuffer C b),
                           serial := getSerial C b,
                           startIndex := drop_bit (bytesShift dstTypeInfo) offset,
                           startOffset := offset\<rparr>,
                putStreamingBuffer dstType b m1, ev1 @ ev2)))"

section \<open>Preparing the index data of a draw\<close>

text \<open>
  \<^verbatim>\<open>prepareIndexData\<close> receives the GL buffer as a pointer: here the address of its
  \<^verbatim>\<open>BufferD3D\<close> together with that object's state, or \<open>None\<close>. \<open>indices\<close> is the value
  of the pointer argument and \<open>clientMemory\<close> the bytes readable there when it is a client
  pointer. The result is the error, the descriptor as the call leaves it, the manager,
  the buffer and the log. The \<^verbatim>\<open>ASSERT\<close>s of this function state what callers owe (no restart
  index among \<^verbatim>\<open>GL_UNSIGNED_INT\<close> indices on D3D11, the drawn range inside the buffer, data
  present after a successful read); they do nothing in a release build and are not branches
  here.

  Case 2 is split in three: \<open>offsetAlignedFor\<close> is the \<^verbatim>\<open>switch\<close>, \<open>streamFromBuffer\<close>
  the streaming branch of case 2b and \<open>useStaticBuffer\<close> its other branch.
\<close>

definition offsetAlignedFor :: "GLenum \<Rightarrow> GLuint \<Rightarrow> bool" where
  "offsetAlignedFor srcType offset =
     (case srcType of
        GL_UNSIGNED_BYTE \<Rightarrow> offset mod 1 = 0
      | GL_UNSIGNED_SHORT \<Rightarrow> offset mod 2 = 0
      | GL_UNSIGNED_INT \<Rightarrow> offset mod 4 = 0)"

definition streamFromBuffer ::
  "'ib Collaborators \<Rightarrow> 'ib IndexDataManager \<Rightarrow> GLenum \<Rightarrow> GLenum \<Rightarrow> GLsizei \<Rightarrow> GLuint
     \<Rightarrow> 'ib BufferD3D \<Rightarrow> TranslatedIndexData \<Rightarrow> bool
     \<Rightarrow> error option \<times> TranslatedIndexData \<times> 'ib IndexDataManager \<times> 'ib BufferD3D \<times> event list" where
  "streamFromBuffer C m srcType dstType count offset buffer translated
       primitiveRestartFixedIndexEnabled =
     (case mData buffer of
        Inl e \<Rightarrow> (Some (CollaboratorError e), translated, m, buffer, [GetData])
      | Inr bufferData \<Rightarrow>
          (case streamIndexData C m (drop (unat offset) bufferData) count srcType dstType
                  primitiveRestartFixedIndexEnabled translated of
             (Some e, t, m1, ev) \<Rightarrow> (Some e, t, m1, buffer, GetData # ev)
           | (None, t, m1, ev) \<Rightarrow>
               (None, t, m1,
                promoteStaticUsage C buffer (push_bit (bytesShift (GetTypeInfo srcType)) count),
                GetData # ev @ [Promote (push_bit (bytesShift (GetTypeInfo srcType)) count)])))"

definition useStaticBuffer ::
  "'ib Collaborators \<Rightarrow> 'ib IndexDataManager \<Rightarrow> GLenum \<Rightarrow> GLenum \<Rightarrow> GLuint \<Rightarrow> 'ib BufferD3D
     \<Rightarrow> 'ib \<Rightarrow> bool \<Rightarrow> TranslatedIndexData \<Rightarrow> bool
     \<Rightarrow> error option \<times> TranslatedIndexData \<times> 'ib IndexDataManager \<times> 'ib BufferD3D \<times> event list" where
  "useStaticBuffer C m srcType dstType offset buffer staticBuffer staticBufferInitialized
       translated primitiveRestartFixedIndexEnabled =
     (let srcTypeInfo = GetTypeInfo srcType;
          dstTypeInfo = GetTypeInfo dstType;
          built =
            (if \<not> staticBufferInitialized then
               (case mData buffer of
                  Inl e \<Rightarrow> (Some (CollaboratorError e), staticBuffer, [GetData])
                | Inr bufferData \<Rightarrow>
                    (let convertCount =
                           drop_bit (bytesShift srcTypeInfo) (ucast (mSize buffer) :: GLuint)
                     in case StreamInIndexBuffer C StaticIndex staticBuffer bufferData
                               convertCount srcType dstType primitiveRestartFixedIndexEnabled of
                          (Inl e, b, ev) \<Rightarrow> (Some e, b, GetData # ev)
                        | (Inr _, b, ev) \<Rightarrow> (None, b, GetData # ev)))
             else (None, staticBuffer, []))
      in case built of
           (Some e, b, ev) \<Rightarrow> (Some e, translated, m, buffer\<lparr>mStaticIndexBuffer := Some b\<rparr>, ev)
         | (None, b, ev) \<Rightarrow>
             (None,
              translated\<lparr>indexBuffer := Some (getIndexBuffer C b),
                         serial := getSerial C b,
                         startIndex := drop_bit (bytesShift srcTypeInfo) offset,
                         startOffset :=
                           push_bit (bytesShift dstTypeInfo)
                             (drop_bit (bytesShift srcTypeInfo) offset)\<rparr>,
              m, buffer\<lparr>mStaticIndexBuffer := Some b\<rparr>, ev))"

definition prepareIndexData ::
  "'ib Collaborators \<Rightarrow> 'ib IndexDataManager \<Rightarrow> GLenum \<Rightarrow> GLsizei \<Rightarrow> (nat \<times> 'ib BufferD3D) option
     \<Rightarrow> nat \<Rightarrow> GLubyte list \<Rightarrow> TranslatedIndexData \<Rightarrow> bool
     \<Rightarrow> error option \<times> TranslatedIndexData \<times> 'ib IndexDataManager
         \<times> (nat \<times> 'ib BufferD3D) option \<times> event list" where
  "prepareIndexData C m srcType count glBuffer indices clientMemory translated
       primitiveRestartFixedIndexEnabled =
     (let dstType = dstTypeOf (mRendererClass m) srcType count translated
                      primitiveRestartFixedIndexEnabled;
          srcTypeInfo = GetTypeInfo srcType;
          translated1 =
            translated\<lparr>indexType := dstType,
                       srcIndexData :=
                         (srcIndexData translated)\<lparr>srcBuffer := map_option fst glBuffer,
                                                    srcIndices := indices,
                                                    srcIndexType := srcType,
                                                    srcCount := count\<rparr>\<rparr>
      in case glBuffer of
           None \<Rightarrow>
             (case streamIndexData C m clientMemory count srcType dstType
                     primitiveRestartFixedIndexEnabled (translated1\<lparr>storage := None\<rparr>) of
                (r, t, m1, ev) \<Rightarrow> (r, t, m1, None, ev))
         | Some (bufferPtr, buffer) \<Rightarrow>
             (let offset = (of_nat indices :: GLuint);
                  offsetAligned = offsetAlignedFor srcType offset
              in if offsetAligned \<and> mSupportsDirectBinding buffer \<and> dstType = srcType then
                   (None,
                    translated1\<lparr>storage := Some bufferPtr,
                                indexBuffer := None,
                                serial := mSerial buffer,
                                startIndex := drop_bit (bytesShift srcTypeInfo) offset,
                                startOffset := offset\<rparr>,
                    m, Some (bufferPtr, buffer), [])
                 else
                   (let translated2 = translated1\<lparr>storage := None\<rparr>;
                        staticBuffer0 = mStaticIndexBuffer buffer;
                        staticBufferInitialized =
                          (case staticBuffer0 of None \<Rightarrow> False
                           | Some sb \<Rightarrow> getBufferSize C sb \<noteq> 0);
                        staticBufferUsable =
                          (case staticBuffer0 of None \<Rightarrow> False
                           | Some sb \<Rightarrow> offsetAligned \<and> getIndexType C sb = dstType);
                        invalidate = (staticBufferInitialized \<and> \<not> staticBufferUsable);
                        buffer1 = (if invalidate then invalidateStaticData C buffer else buffer);
                        staticBuffer = (if invalidate then None else staticBuffer0);
                        ev0 = (if invalidate then [Invalidate] else [])
                    in case (if offsetAligned then staticBuffer else None) of
                         None \<Rightarrow>
                           (case streamFromBuffer C m srcType dstType count offset buffer1
                                   translated2 primitiveRestartFixedIndexEnabled of
                              (r, t, m1, b, ev) \<Rightarrow> (r, t, m1, Some (bufferPtr, b), ev0 @ ev))
                       | Some sb \<Rightarrow>
                           (case useStaticBuffer C m srcType dstType offset buffer1 sb
                                   staticBufferInitialized translated2
                                   primitiveRestartFixedIndexEnabled of
                              (r, t, m1, b, ev) \<Rightarrow> (r, t, m1, Some (bufferPtr, b), ev0 @ ev)))))"

section \<open>A scratch allocator for concrete runs\<close>

text \<open>
  Modelled from the spec: the implementations of the index buffer objects and of
  \<^verbatim>\<open>BufferD3D\<close> are not among the sources. The streaming allocator of the design grows its
  capacity when a reservation does not fit (doubling, never shrinking), maps a region at an
  offset that increases until the storage is exhausted and then wraps to offset 0, and
  finalizes the write on unmap; invalidating a static cache discards the whole entry, and
  promoting usage is a heuristic of the buffer, which keeps no state here. The initial size
  of a streaming buffer is taken to be 4096 elements of four bytes. The general theorems
  hold for every record of collaborators; this one serves the concrete runs.
\<close>

record ScratchBuffer =
  capacity :: GLuint
  width :: GLenum
  writePosition :: GLuint
  content :: "GLubyte list"
  identityToken :: nat
  handle :: nat

definition scratchReserve :: "ScratchBuffer \<Rightarrow> GLuint \<Rightarrow> GLenum \<Rightarrow> nat option \<times> ScratchBuffer" where
  "scratchReserve b n ty =
     (None,
      if capacity b < n then
        b\<lparr>capacity := max n (2 * capacity b), width := ty, writePosition := 0,
          identityToken := identityToken b + 1\<rparr>
      else b)"

definition scratchMap :: "ScratchBuffer \<Rightarrow> GLuint \<Rightarrow> (nat + GLuint) \<times> ScratchBuffer" where
  "scratchMap b n =
     (if capacity b - writePosition b < n then (Inr 0, b\<lparr>writePosition := n\<rparr>)
      else (Inr (writePosition b), b\<lparr>writePosition := writePosition b + n\<rparr>))"

definition scratchCollaborators :: "ScratchBuffer Collaborators" where
  "scratchCollaborators =
     \<lparr>reserveBufferSpace = scratchReserve,
      mapBuffer = scratchMap,
      writeMapped = (\<lambda>b bs. b\<lparr>content := bs\<rparr>),
      unmapBuffer = (\<lambda>b. (None, b)),
      getIndexBuffer = handle,
      getSerial = identityToken,
      getBufferSize = capacity,
      getIndexType = width,
      newStreamingIndexBufferInterface =
        \<lparr>capacity = 0, width = GL_UNSIGNED_SHORT, writePosition = 0, content = [],
         identityToken = 0, handle = 1\<rparr>,
      INITIAL_INDEX_BUFFER_SIZE = 16384,
      invalidateStaticData = (\<lambda>b. b\<lparr>mStaticIndexBuffer := None\<rparr>),
      promoteStaticUsage = (\<lambda>b n. b)\<rparr>"

text \<open>A manager that has not streamed yet, and a descriptor before its first use.\<close>

definition freshManager :: "RendererClass \<Rightarrow> ScratchBuffer IndexDataManager" where
  "freshManager rendererClass =
     \<lparr>mRendererClass = rendererClass, mStreamingBufferShort = None,
      mStreamingBufferInt = None\<rparr>"

definition blankTranslated :: "size_t \<Rightarrow> size_t \<Rightarrow> TranslatedIndexData" where
  "blankTranslated e n =
     \<lparr>indexRange = \<lparr>rangeEnd = e, vertexIndexCount = n\<rparr>,
      startIndex = 0, startOffset = 0, indexBuffer = None, storage = None,
      indexType = GL_UNSIGNED_BYTE, serial = 0,
      srcIndexData = \<lparr>srcBuffer = None, srcIndices = 0, srcIndexType = GL_UNSIGNED_BYTE,
                      srcCount = 0\<rparr>\<rparr>"

text \<open>The bytes the log says were stored in mapped regions, in order.\<close>

fun written :: "event list \<Rightarrow> (which \<times> GLubyte list) list" where
  "written [] = []"
| "written (Write w bs # ev) = (w, bs) # written ev"
| "written (_ # ev) = written ev"

text \<open>The index buffer objects the log calls, and the arguments of the usage promotions.\<close>

fun touched :: "event list \<Rightarrow> which list" where
  "touched [] = []"
| "touched (NewStreaming w # ev) = w # touched ev"
| "touched (Reserve w _ _ # ev) = w # touched ev"
| "touched (Map w _ # ev) = w # touched ev"
| "touched (Write w _ # ev) = w # touched ev"
| "touched (Unmap w # ev) = w # touched ev"
| "touched (_ # ev) = touched ev"

fun promotions :: "event list \<Rightarrow> GLsizei list" where
  "promotions [] = []"
| "promotions (Promote n # ev) = n # promotions ev"
| "promotions (_ # ev) = promotions ev"

text \<open>
  A buffer for the concrete runs, holding the given bytes, and a static index buffer of
  the given size and index type.
\<close>

definition exampleBuffer ::
  "bool \<Rightarrow> ScratchBuffer option \<Rightarrow> GLubyte list \<Rightarrow> ScratchBuffer BufferD3D" where
  "exampleBuffer direct cache bufferData =
     \<lparr>mSize = of_nat (length bufferData), mSupportsDirectBinding = direct, mSerial = 42,
      mStaticIndexBuffer = cache, mData = Inr bufferData\<rparr>"

definition exampleCache :: "GLuint \<Rightarrow> GLenum \<Rightarrow> ScratchBuffer" where
  "exampleCache n ty =
     \<lparr>capacity = n, width = ty, writePosition = n, content = [], identityToken = 3,
      handle = 9\<rparr>"

section \<open>Typed views: round trips\<close>

lemma load_store_GLushort:
  "load_GLushorts (store_GLushort w @ bs) = w # load_GLushorts bs"
proof -
  have "(ucast (ucast w :: GLubyte) OR push_bit 8 (ucast (ucast (drop_bit 8 w) :: GLubyte))) = w"
    by (rule bit_word_eqI) (auto simp: bit_simps)
  then show ?thesis
    by (simp add: store_GLushort_def)
qed

lemma load_store_GLushorts: "load_GLushorts (store_GLushorts ws) = ws"
proof (induction ws)
  case Nil
  show ?case by (simp add: store_GLushorts_def)
next
  case (Cons w ws)
  have "store_GLushorts (w # ws) = store_GLushort w @ store_GLushorts ws"
    by (simp add: store_GLushorts_def)
  with Cons show ?case
    by (simp add: load_store_GLushort)
qed

lemma load_store_GLuint:
  "load_GLuints (store_GLuint w @ bs) = w # load_GLuints bs"
proof -
  have "(ucast (ucast w :: GLubyte) OR push_bit 8 (ucast (ucast (drop_bit 8 w) :: GLubyte))
          OR push_bit 16 (ucast (ucast (drop_bit 16 w) :: GLubyte))
          OR push_bit 24 (ucast (ucast (drop_bit 24 w) :: GLubyte))) = w" (is "?l = _")
  proof (rule bit_word_eqI)
    fix n
    assume "n < LENGTH(32)"
    then show "bit ?l n = bit w n"
      by (cases "n < 8"; cases "n < 16"; cases "n < 24") (auto simp: bit_simps)
  qed
  then show ?thesis
    by (simp add: store_GLuint_def)
qed

lemma load_store_GLuints: "load_GLuints (store_GLuints ws) = ws"
proof (induction ws)
  case Nil
  show ?case by (simp add: store_GLuints_def)
next
  case (Cons w ws)
  have "store_GLuints (w # ws) = store_GLuint w @ store_GLuints ws"
    by (simp add: store_GLuints_def)
  with Cons show ?case
    by (simp add: load_store_GLuint)
qed

section \<open>Widening keeps the value\<close>

lemma unat_ucast_8_16: "unat (ucast x :: GLushort) = unat x" for x :: GLubyte
proof -
  have "unat x < 2 ^ 8" using unsigned_less [of x] by simp
  then have "unat x < 2 ^ 16" by simp
  then show ?thesis by (simp add: unsigned_ucast_eq take_bit_nat_eq_self)
qed

lemma unat_ucast_16_32: "unat (ucast x :: GLuint) = unat x" for x :: GLushort
proof -
  have "unat x < 2 ^ 16" using unsigned_less [of x] by simp
  then have "unat x < 2 ^ 32" by simp
  then show ?thesis by (simp add: unsigned_ucast_eq take_bit_nat_eq_self)
qed

lemma GLubyte_restart_iff: "(x = 0xFF) = (unat x = 255)" for x :: GLubyte
  by (simp add: word_unat_eq_iff)

lemma GLushort_restart_iff: "(x = 0xFFFF) = (unat x = 65535)" for x :: GLushort
  by (simp add: word_unat_eq_iff)

section \<open>The converter remaps the restart index\<close>

text \<open>
  C3. Both widening conversions succeed and write one destination element per source
  element among the first \<open>count\<close>. Read back from the output bytes, the element written
  for a source element is the destination sentinel (65535, 4294967295) when the remap flag
  is set and the source element is the source sentinel (255, 65535), and otherwise has the
  numeric value of the source element. With the flag false every element keeps its value.
\<close>

theorem ConvertIndices_restart_remap:
  "(\<exists>out. ConvertIndices GL_UNSIGNED_BYTE GL_UNSIGNED_SHORT input count remap = Inr out \<and>
      map unat (load_GLushorts out) =
        map (\<lambda>x. if remap \<and> unat x = 2 ^ 8 - 1 then 2 ^ 16 - 1 else unat x)
          (take (nat (sint count)) input)) \<and>
   (\<exists>out. ConvertIndices GL_UNSIGNED_SHORT GL_UNSIGNED_INT input count remap = Inr out \<and>
      map unat (load_GLuints out) =
        map (\<lambda>x. if remap \<and> unat x = 2 ^ 16 - 1 then 2 ^ 32 - 1 else unat x)
          (take (nat (sint count)) (load_GLushorts input)))"
  by (simp add: ConvertIndices_def ConvertIndexArray_def load_store_GLushorts
        load_store_GLuints unat_ucast_8_16 unat_ucast_16_32 GLubyte_restart_iff
        GLushort_restart_iff)

section \<open>Facts about the element types\<close>

lemma mask_31: "(mask 31 :: GLuint) = 0x7FFFFFFF"
  by (simp add: mask_eq_exp_minus_1)

lemma mask_30: "(mask 30 :: GLuint) = 0x3FFFFFFF"
  by (simp add: mask_eq_exp_minus_1)

lemma unat_max_GLuint: "unat (- 1 :: GLuint) = 0xFFFFFFFF"
  by (simp add: unsigned_minus_1_eq_mask mask_eq_exp_minus_1)

lemma capacity_check:
  "(drop_bit (bytesShift (GetTypeInfo dstType)) (- 1 :: GLuint) < count) =
     ((2 ^ 32 - 1) div unat (bytes (GetTypeInfo dstType)) < unat count)"
  by (cases dstType) (simp_all add: word_less_nat_alt mask_31 mask_30 unat_max_GLuint)

lemma size_t_of_count:
  "unat (scast (count :: GLsizei) :: size_t) =
     (if 0 \<le> sint count then nat (sint count) else 2 ^ 64 - nat (- sint count))"
proof -
  define k where "k = sint count"
  have "k < 2 ^ 31" unfolding k_def using sint_lt [of count] by simp
  then have lt: "k < 2 ^ 64" by simp
  have "- (2 ^ 31) \<le> k" unfolding k_def using sint_ge [of count] by simp
  then have ge: "0 \<le> k + 2 ^ 64" by simp
  have u: "uint (scast count :: size_t) = k mod 2 ^ 64"
    unfolding scast_eq uint_word_of_int k_def by simp
  have v: "unat (scast count :: size_t) = nat (k mod 2 ^ 64)"
    using u by (simp only: unat_eq_nat_uint)
  show ?thesis
  proof (cases "0 \<le> k")
    case True
    then have "k mod 2 ^ 64 = k" using lt by (rule mod_pos_pos_trivial)
    with True v show ?thesis unfolding k_def by simp
  next
    case False
    then have "k + 2 ^ 64 < 2 ^ 64" by simp
    with ge have "(k + 2 ^ 64) mod 2 ^ 64 = k + 2 ^ 64" by (rule mod_pos_pos_trivial)
    moreover have "(k + 2 ^ 64) mod 2 ^ 64 = k mod 2 ^ 64" by (rule mod_add_self2)
    ultimately have "k mod 2 ^ 64 = k + 2 ^ 64" by simp
    with v have "unat (scast count :: size_t) = nat (k + 2 ^ 64)" by simp
    also have "\<dots> = 2 ^ 64 - nat (- k)"
    proof -
      have "nat (k + int M) = M - nat (- k)" if "0 \<le> k + int M" for M
        using that False by linarith
      from this [of "2 ^ 64"] ge show ?thesis by simp
    qed
    finally show ?thesis using False unfolding k_def by simp
  qed
qed

lemma restart_as_size_t:
  "(e = (ucast (GetPrimitiveRestartIndex srcType) :: size_t)) =
     (unat e = 2 ^ typeBits srcType - 1)"
  by (cases srcType) (simp_all add: word_unat_eq_iff)

section \<open>The converter's contract\<close>

lemma ConvertIndices_violation_iff:
  "(ConvertIndices s d i c u = Inl e) =
     (e = ContractViolation \<and>
      \<not> (s = d \<or> s = GL_UNSIGNED_BYTE \<and> d = GL_UNSIGNED_SHORT \<or>
         s = GL_UNSIGNED_SHORT \<and> d = GL_UNSIGNED_INT))"
  by (cases s; cases d) (auto simp: ConvertIndices_def)

lemma dstTypeOf_pair:
  "srcType = dstTypeOf rc srcType count translated fixed \<or>
   srcType = GL_UNSIGNED_BYTE \<and>
     dstTypeOf rc srcType count translated fixed = GL_UNSIGNED_SHORT \<or>
   srcType = GL_UNSIGNED_SHORT \<and>
     dstTypeOf rc srcType count translated fixed = GL_UNSIGNED_INT"
  by (cases srcType)
    (auto simp: dstTypeOf_def primitiveRestartWorkaround_def UsePrimitiveRestartWorkaround_def)

lemma typeBits_dstTypeOf:
  "typeBits srcType \<le> typeBits (dstTypeOf rc srcType count translated fixed)"
  using dstTypeOf_pair [of srcType rc count translated fixed] by (cases srcType) auto

lemma StreamInIndexBuffer_no_violation:
  assumes "s = d \<or> s = GL_UNSIGNED_BYTE \<and> d = GL_UNSIGNED_SHORT \<or>
        s = GL_UNSIGNED_SHORT \<and> d = GL_UNSIGNED_INT"
  shows "StreamInIndexBuffer C w b data c s d u \<noteq> (Inl ContractViolation, b', ev)"
proof -
  from assms have "ConvertIndices s d data c u \<noteq> Inl e" for e
    by (simp add: ConvertIndices_violation_iff)
  then show ?thesis
    unfolding StreamInIndexBuffer_def Let_def
    by (auto split: if_splits prod.splits option.splits sum.splits)
qed

lemma streamIndexData_no_violation:
  assumes "s = d \<or> s = GL_UNSIGNED_BYTE \<and> d = GL_UNSIGNED_SHORT \<or>
        s = GL_UNSIGNED_SHORT \<and> d = GL_UNSIGNED_INT"
  shows "streamIndexData C m data c s d u t \<noteq> (Some ContractViolation, t', m', ev)"
  unfolding streamIndexData_def getStreamingIndexBuffer_def Let_def
  using StreamInIndexBuffer_no_violation [OF assms, of C]
  by (auto split: if_splits prod.splits option.splits sum.splits)

lemma streamFromBuffer_no_violation:
  assumes "s = d \<or> s = GL_UNSIGNED_BYTE \<and> d = GL_UNSIGNED_SHORT \<or>
        s = GL_UNSIGNED_SHORT \<and> d = GL_UNSIGNED_INT"
  shows "streamFromBuffer C m s d c off b t u \<noteq> (Some ContractViolation, t', m', b', ev)"
  unfolding streamFromBuffer_def
  using streamIndexData_no_violation [OF assms, of C m]
  by (auto split: prod.splits option.splits sum.splits)

lemma useStaticBuffer_no_violation:
  assumes "s = d \<or> s = GL_UNSIGNED_BYTE \<and> d = GL_UNSIGNED_SHORT \<or>
        s = GL_UNSIGNED_SHORT \<and> d = GL_UNSIGNED_INT"
  shows "useStaticBuffer C m s d off b sb ini t u \<noteq> (Some ContractViolation, t', m', b', ev)"
  unfolding useStaticBuffer_def Let_def
  using StreamInIndexBuffer_no_violation [OF assms, of C]
  by (auto split: if_splits prod.splits option.splits sum.splits)

lemma prepareIndexData_no_violation:
  "prepareIndexData C m srcType count glBuffer indices mem translated fixed
     \<noteq> (Some ContractViolation, t', m', b', ev)"
  unfolding prepareIndexData_def Let_def
  using streamIndexData_no_violation [OF dstTypeOf_pair, of C m]
     streamFromBuffer_no_violation [OF dstTypeOf_pair, of C m]
     useStaticBuffer_no_violation [OF dstTypeOf_pair, of C m]
  by (auto split: if_splits prod.splits option.splits sum.splits)

section \<open>What streaming leaves alone in the descriptor\<close>

lemma streamIndexData_keeps:
  "streamIndexData C m data c s d u t = (r, t', m', ev) \<Longrightarrow>
     indexType t' = indexType t \<and> srcIndexData t' = srcIndexData t \<and>
     storage t' = storage t \<and> indexRange t' = indexRange t"
  unfolding streamIndexData_def Let_def
  by (auto split: prod.splits sum.splits)

lemma streamFromBuffer_keeps:
  "streamFromBuffer C m s d c off b t u = (r, t', m', b', ev) \<Longrightarrow>
     indexType t' = indexType t \<and> srcIndexData t' = srcIndexData t \<and>
     storage t' = storage t \<and> indexRange t' = indexRange t"
  unfolding streamFromBuffer_def
  by (auto split: prod.splits sum.splits option.splits dest: streamIndexData_keeps)

lemma useStaticBuffer_keeps:
  "useStaticBuffer C m s d off b sb ini t u = (r, t', m', b', ev) \<Longrightarrow>
     indexType t' = indexType t \<and> srcIndexData t' = srcIndexData t \<and>
     storage t' = storage t \<and> indexRange t' = indexRange t"
  unfolding useStaticBuffer_def Let_def
  by (auto split: prod.splits sum.splits option.splits if_splits)

lemma prepareIndexData_descriptor:
  "indexType (fst (snd (prepareIndexData C m srcType count glBuffer indices mem translated fixed)))
     = dstTypeOf (mRendererClass m) srcType count translated fixed \<and>
   srcBuffer (srcIndexData (fst (snd (prepareIndexData C m srcType count glBuffer indices mem
     translated fixed)))) = map_option fst glBuffer \<and>
   srcIndices (srcIndexData (fst (snd (prepareIndexData C m srcType count glBuffer indices mem
     translated fixed)))) = indices \<and>
   srcIndexType (srcIndexData (fst (snd (prepareIndexData C m srcType count glBuffer indices mem
     translated fixed)))) = srcType \<and>
   srcCount (srcIndexData (fst (snd (prepareIndexData C m srcType count glBuffer indices mem
     translated fixed)))) = count"
  unfolding prepareIndexData_def Let_def
  by (auto split: prod.splits option.splits if_splits
      dest!: streamIndexData_keeps streamFromBuffer_keeps useStaticBuffer_keeps)

section \<open>The capacity check of a streaming write\<close>

lemma ConvertIndices_not_OutOfMemory: "ConvertIndices s d i c u \<noteq> Inl OutOfMemory"
  by (simp add: ConvertIndices_def)

lemma StreamInIndexBuffer_over:
  assumes "(2 ^ 32 - 1) div unat (bytes (GetTypeInfo dstType)) < unat count"
  shows "StreamInIndexBuffer C w buffer data count srcType dstType u
           = (Inl OutOfMemory, buffer, [])"
  unfolding StreamInIndexBuffer_def Let_def capacity_check using assms by simp

lemma StreamInIndexBuffer_within:
  assumes "\<not> (2 ^ 32 - 1) div unat (bytes (GetTypeInfo dstType)) < unat count"
  shows "fst (StreamInIndexBuffer C w buffer data count srcType dstType u) \<noteq> Inl OutOfMemory"
  unfolding StreamInIndexBuffer_def Let_def capacity_check using assms
  by (auto simp: ConvertIndices_not_OutOfMemory split: prod.splits option.splits sum.splits)

text \<open>
  C8. A streaming write returns the out-of-memory error exactly when \<open>count\<close> exceeds the
  largest \<^verbatim>\<open>unsigned int\<close> divided by the destination element size, which is exactly when
  \<open>count\<close> times that size does not fit in an \<^verbatim>\<open>unsigned int\<close>. When it does, the buffer is
  as it was and the log is empty: nothing was reserved, mapped or converted. No other
  outcome of the function carries that error.
\<close>

theorem StreamInIndexBuffer_capacity:
  "(StreamInIndexBuffer C w buffer data count srcType dstType u = (Inl OutOfMemory, buffer, [])) =
     ((2 ^ 32 - 1) div unat (bytes (GetTypeInfo dstType)) < unat count) \<and>
   (fst (StreamInIndexBuffer C w buffer data count srcType dstType u) = Inl OutOfMemory) =
     ((2 ^ 32 - 1) div unat (bytes (GetTypeInfo dstType)) < unat count) \<and>
   ((2 ^ 32 - 1) div unat (bytes (GetTypeInfo dstType)) < unat count) =
     (2 ^ 32 \<le> unat count * unat (bytes (GetTypeInfo dstType)))"
proof -
  have c: "((2 ^ 32 - 1) div unat (bytes (GetTypeInfo dstType)) < unat count) =
     (2 ^ 32 \<le> unat count * unat (bytes (GetTypeInfo dstType)))"
    by (cases dstType) auto
  from StreamInIndexBuffer_over [of dstType count C w buffer data srcType u]
    StreamInIndexBuffer_within [of dstType count C w buffer data srcType u] c
  show ?thesis by (metis fst_conv)
qed

section \<open>The format policy\<close>

text \<open>
  C2. The workaround is active exactly when the fixed restart index is disabled, the source
  type is 16-bit, the renderer is D3D11 and the range metadata of the descriptor shows a
  restart index: fewer covered vertices than elements, or a range end equal to the maximum
  of the source width. The element count is the \<^verbatim>\<open>GLsizei\<close> as the comparison reads it,
  converted to \<^verbatim>\<open>size_t\<close>: the count itself unless it is negative. The destination type is
  32-bit exactly when the source is 32-bit or the workaround is active and 16-bit otherwise;
  an 8-bit source yields 16-bit; the destination is never narrower than the source; and it
  is the index type every call leaves in the descriptor.
\<close>

theorem prepareIndexData_format_policy:
  "primitiveRestartWorkaround rc srcType count translated fixed =
     (\<not> fixed \<and> srcType = GL_UNSIGNED_SHORT \<and> rc = RENDERER_D3D11 \<and>
      (unat (vertexIndexCount (indexRange translated)) < unat (scast count :: size_t) \<or>
       unat (rangeEnd (indexRange translated)) = 2 ^ typeBits srcType - 1)) \<and>
   unat (scast count :: size_t) =
     (if 0 \<le> sint count then nat (sint count) else 2 ^ 64 - nat (- sint count)) \<and>
   (dstTypeOf rc srcType count translated fixed = GL_UNSIGNED_INT) =
     (srcType = GL_UNSIGNED_INT \<or> primitiveRestartWorkaround rc srcType count translated fixed) \<and>
   (dstTypeOf rc srcType count translated fixed = GL_UNSIGNED_SHORT) =
     (\<not> (srcType = GL_UNSIGNED_INT \<or>
         primitiveRestartWorkaround rc srcType count translated fixed)) \<and>
   dstTypeOf rc GL_UNSIGNED_BYTE count translated fixed = GL_UNSIGNED_SHORT \<and>
   typeBits srcType \<le> typeBits (dstTypeOf rc srcType count translated fixed) \<and>
   indexType (fst (snd (prepareIndexData C m srcType count glBuffer indices mem translated fixed)))
     = dstTypeOf (mRendererClass m) srcType count translated fixed"
proof -
  have w: "primitiveRestartWorkaround rc srcType count translated fixed =
     (\<not> fixed \<and> srcType = GL_UNSIGNED_SHORT \<and> rc = RENDERER_D3D11 \<and>
      (unat (vertexIndexCount (indexRange translated)) < unat (scast count :: size_t) \<or>
       unat (rangeEnd (indexRange translated)) = 2 ^ typeBits srcType - 1))"
    by (simp add: primitiveRestartWorkaround_def UsePrimitiveRestartWorkaround_def
        hasPrimitiveRestartIndex_def restart_as_size_t word_less_nat_alt)
  have d: "(dstTypeOf rc srcType count translated fixed = GL_UNSIGNED_INT) =
     (srcType = GL_UNSIGNED_INT \<or> primitiveRestartWorkaround rc srcType count translated fixed)"
    "(dstTypeOf rc srcType count translated fixed = GL_UNSIGNED_SHORT) =
     (\<not> (srcType = GL_UNSIGNED_INT \<or>
         primitiveRestartWorkaround rc srcType count translated fixed))"
    by (simp_all add: dstTypeOf_def)
  have b: "dstTypeOf rc GL_UNSIGNED_BYTE count translated fixed = GL_UNSIGNED_SHORT"
    by (simp add: dstTypeOf_def primitiveRestartWorkaround_def UsePrimitiveRestartWorkaround_def)
  from w d b size_t_of_count [of count] typeBits_dstTypeOf [of srcType rc count translated fixed]
    prepareIndexData_descriptor [of C m srcType count glBuffer indices mem translated fixed]
  show ?thesis by blast
qed

section \<open>No narrowing reaches the converter\<close>

text \<open>
  C9. Whatever the call, the pair of source type and chosen destination type is one of
  equal types, 8-bit to 16-bit, or 16-bit to 32-bit, so the destination is never narrower.
  For that pair \<^verbatim>\<open>ConvertIndices\<close> has no failing outcome on any data, and no call of
  \<^verbatim>\<open>prepareIndexData\<close> ends in a contract violation. The branch itself exists: a narrowing
  pair such as 32-bit to 16-bit does reach it.
\<close>

theorem prepareIndexData_never_narrows:
  "fst (prepareIndexData C m srcType count glBuffer indices mem translated fixed)
     \<noteq> Some ContractViolation \<and>
   (srcType = dstTypeOf (mRendererClass m) srcType count translated fixed \<or>
    srcType = GL_UNSIGNED_BYTE \<and>
      dstTypeOf (mRendererClass m) srcType count translated fixed = GL_UNSIGNED_SHORT \<or>
    srcType = GL_UNSIGNED_SHORT \<and>
      dstTypeOf (mRendererClass m) srcType count translated fixed = GL_UNSIGNED_INT) \<and>
   typeBits srcType \<le> typeBits (dstTypeOf (mRendererClass m) srcType count translated fixed) \<and>
   (\<forall>data n u e. ConvertIndices srcType
       (dstTypeOf (mRendererClass m) srcType count translated fixed) data n u \<noteq> Inl e) \<and>
   (\<forall>data n u. ConvertIndices GL_UNSIGNED_INT GL_UNSIGNED_SHORT data n u = Inl ContractViolation)"
proof -
  have "fst (prepareIndexData C m srcType count glBuffer indices mem translated fixed)
     \<noteq> Some ContractViolation"
    using prepareIndexData_no_violation [of C m srcType count glBuffer indices mem translated fixed]
    by (cases "prepareIndexData C m srcType count glBuffer indices mem translated fixed") auto
  moreover have "\<forall>data n u e. ConvertIndices srcType
       (dstTypeOf (mRendererClass m) srcType count translated fixed) data n u \<noteq> Inl e"
    using dstTypeOf_pair [of srcType "mRendererClass m" count translated fixed]
    by (simp add: ConvertIndices_violation_iff)
  moreover have "\<forall>data n u. ConvertIndices GL_UNSIGNED_INT GL_UNSIGNED_SHORT data n u
      = Inl ContractViolation"
    by (simp add: ConvertIndices_violation_iff)
  ultimately show ?thesis
    using dstTypeOf_pair [of srcType "mRendererClass m" count translated fixed]
      typeBits_dstTypeOf [of srcType "mRendererClass m" count translated fixed]
    by blast
qed

section \<open>A failing call still writes the descriptor\<close>

text \<open>
  C10. Every call, whatever its outcome, leaves in the descriptor the destination index
  type computed for this call and the source buffer, source pointer, source type and source
  count it was given. The run below fails the capacity check (2^30 elements of four bytes)
  and shows the descriptor changed all the same.
\<close>

theorem prepareIndexData_overwrites_descriptor:
  "indexType (fst (snd (prepareIndexData C m srcType count glBuffer indices mem translated fixed)))
     = dstTypeOf (mRendererClass m) srcType count translated fixed \<and>
   srcBuffer (srcIndexData (fst (snd (prepareIndexData C m srcType count glBuffer indices mem
     translated fixed)))) = map_option fst glBuffer \<and>
   srcIndices (srcIndexData (fst (snd (prepareIndexData C m srcType count glBuffer indices mem
     translated fixed)))) = indices \<and>
   srcIndexType (srcIndexData (fst (snd (prepareIndexData C m srcType count glBuffer indices mem
     translated fixed)))) = srcType \<and>
   srcCount (srcIndexData (fst (snd (prepareIndexData C m srcType count glBuffer indices mem
     translated fixed)))) = count"
  by (rule prepareIndexData_descriptor)

theorem prepareIndexData_overwrites_descriptor_witness:
  "fst (prepareIndexData scratchCollaborators (freshManager RENDERER_D3D11) GL_UNSIGNED_INT
          0x40000000 None 4096 [] (blankTranslated 0 0) False) = Some OutOfMemory \<and>
   indexType (fst (snd (prepareIndexData scratchCollaborators (freshManager RENDERER_D3D11)
          GL_UNSIGNED_INT 0x40000000 None 4096 [] (blankTranslated 0 0) False))) = GL_UNSIGNED_INT \<and>
   srcCount (srcIndexData (fst (snd (prepareIndexData scratchCollaborators
          (freshManager RENDERER_D3D11) GL_UNSIGNED_INT 0x40000000 None 4096 []
          (blankTranslated 0 0) False)))) = 0x40000000 \<and>
   indexType (blankTranslated 0 0) = GL_UNSIGNED_BYTE \<and>
   srcCount (srcIndexData (blankTranslated 0 0)) = 0"
proof -
  have "fst (prepareIndexData scratchCollaborators (freshManager RENDERER_D3D11) GL_UNSIGNED_INT
          0x40000000 None 4096 [] (blankTranslated 0 0) False) = Some OutOfMemory"
    by code_simp
  then show ?thesis
    using prepareIndexData_overwrites_descriptor [of scratchCollaborators
        "freshManager RENDERER_D3D11" GL_UNSIGNED_INT "0x40000000" None 4096 "[]"
        "blankTranslated 0 0" False]
    by (simp add: dstTypeOf_def blankTranslated_def)
qed

section \<open>Direct binding\<close>

lemma offsetAlignedFor_iff:
  "offsetAlignedFor srcType off = (unat off mod unat (bytes (GetTypeInfo srcType)) = 0)"
  by (cases srcType) (simp_all add: offsetAlignedFor_def word_unat_eq_iff unat_mod)

lemma unat_shift_right:
  "unat (drop_bit (bytesShift (GetTypeInfo srcType)) (off :: GLuint)) = unat off div unat (bytes (GetTypeInfo srcType))"
  by (cases srcType) (simp_all add: unat_drop_bit_eq drop_bit_eq_div unat_div)

lemma shift_left_times:
  "push_bit (bytesShift (GetTypeInfo t)) (x :: GLuint) = x * bytes (GetTypeInfo t)"
  by (cases t) (simp_all add: push_bit_eq_mult)

text \<open>
  C5. A buffer-backed call whose byte offset (the pointer argument as an \<^verbatim>\<open>unsigned int\<close>) is
  a multiple of the source element size, whose destination type is the source type and
  whose buffer supports direct binding succeeds, leaves the manager and the buffer as they
  were and calls no collaborator: nothing is read, converted or copied. The descriptor
  names the buffer itself as storage and no index buffer, carries the buffer's serial, and
  starts at the byte offset, that is at element offset divided by the element size.
\<close>

theorem prepareIndexData_direct_binding:
  assumes "glBuffer = Some (bufferPtr, buffer)"
    and "(indices mod 2 ^ 32) mod unat (bytes (GetTypeInfo srcType)) = 0"
    and "dstTypeOf (mRendererClass m) srcType count translated fixed = srcType"
    and "mSupportsDirectBinding buffer"
  shows "\<exists>t. prepareIndexData C m srcType count glBuffer indices mem translated fixed
            = (None, t, m, glBuffer, []) \<and>
          storage t = Some bufferPtr \<and> indexBuffer t = None \<and> serial t = mSerial buffer \<and>
          indexType t = srcType \<and>
          unat (startIndex t) = (indices mod 2 ^ 32) div unat (bytes (GetTypeInfo srcType)) \<and>
          unat (startOffset t) = indices mod 2 ^ 32"
proof -
  have u: "unat (of_nat indices :: GLuint) = indices mod 2 ^ 32"
    by (simp add: unat_of_nat)
  with assms(2) have al: "offsetAlignedFor srcType (of_nat indices)"
    by (simp add: offsetAlignedFor_iff)
  show ?thesis
    unfolding prepareIndexData_def Let_def
    using assms(1,3,4) al u by (simp add: unat_shift_right)
qed

theorem prepareIndexData_direct_binding_witness:
  "\<exists>t. prepareIndexData scratchCollaborators (freshManager RENDERER_D3D11) GL_UNSIGNED_SHORT 3
         (Some (7, exampleBuffer True None (store_GLushorts [9, 8, 7, 5, 65535, 7])))
         6 [] (blankTranslated 65535 3) True
       = (None, t, freshManager RENDERER_D3D11,
          Some (7, exampleBuffer True None (store_GLushorts [9, 8, 7, 5, 65535, 7])), []) \<and>
       storage t = Some 7 \<and> indexBuffer t = None \<and> serial t = 42 \<and>
       indexType t = GL_UNSIGNED_SHORT \<and> unat (startIndex t) = 3 \<and> unat (startOffset t) = 6"
proof -
  have d: "dstTypeOf (mRendererClass (freshManager RENDERER_D3D11)) GL_UNSIGNED_SHORT 3
             (blankTranslated 65535 3) True = GL_UNSIGNED_SHORT"
    by (simp add: dstTypeOf_def primitiveRestartWorkaround_def UsePrimitiveRestartWorkaround_def)
  have a: "((6::nat) mod 2 ^ 32) mod unat (bytes (GetTypeInfo GL_UNSIGNED_SHORT)) = 0"
    by simp
  have b: "mSupportsDirectBinding (exampleBuffer True None (store_GLushorts [9, 8, 7, 5, 65535, 7]))"
    by (simp add: exampleBuffer_def)
  from prepareIndexData_direct_binding [OF refl a d b, where C = scratchCollaborators and mem = "[]"]
  show ?thesis by (simp add: exampleBuffer_def)
qed

section \<open>A stale static buffer is invalidated first\<close>

lemma touched_append: "touched (xs @ ys) = touched xs @ touched ys"
  by (induction xs rule: touched.induct) auto

lemma StreamInIndexBuffer_touched:
  "StreamInIndexBuffer C w b data c s d u = (r, b', ev) \<Longrightarrow> set (touched ev) \<subseteq> {w}"
  unfolding StreamInIndexBuffer_def Let_def
  by (auto split: if_splits prod.splits option.splits sum.splits)

lemma streamIndexData_touched:
  "streamIndexData C m data c s d u t = (r, t', m', ev) \<Longrightarrow> set (touched ev) \<subseteq> {streamingSlot d}"
  unfolding streamIndexData_def getStreamingIndexBuffer_def Let_def
  by (auto simp: touched_append split: if_splits prod.splits option.splits sum.splits
      dest!: StreamInIndexBuffer_touched)

lemma streamingSlot_not_static: "streamingSlot d \<noteq> StaticIndex"
  by (simp add: streamingSlot_def)

lemma streamFromBuffer_shape:
  "\<exists>r t m1 b ev. streamFromBuffer C m s d c off buf t0 u = (r, t, m1, b, GetData # ev) \<and>
     StaticIndex \<notin> set (touched ev) \<and>
     b = (if r = None then promoteStaticUsage C buf (push_bit (bytesShift (GetTypeInfo s)) c)
          else buf)"
proof (cases "mData buf")
  case (Inl e)
  then show ?thesis by (simp add: streamFromBuffer_def)
next
  case (Inr bufferData)
  obtain r t m1 ev where st: "streamIndexData C m (drop (unat off) bufferData) c s d u t0 = (r, t, m1, ev)"
    by (metis prod_cases4)
  from streamIndexData_touched [OF st] have "StaticIndex \<notin> set (touched ev)"
    using streamingSlot_not_static [of d] by auto
  with Inr st show ?thesis
    by (cases r) (simp_all add: streamFromBuffer_def touched_append)
qed

text \<open>
  C7. A buffer-backed call that does not bind directly and finds a static index buffer that
  is initialized (size not 0) but of another index type than the destination type now
  required first calls \<^verbatim>\<open>invalidateStaticData\<close> and then streams: the log starts with the
  invalidation followed by the read of the buffer data, the rest of the call is the
  streaming branch run on the invalidated buffer, and no method of the static index buffer
  is called. With the scratch collaborators, whose invalidation discards the entry, the
  buffer ends without a static index buffer.
\<close>

theorem prepareIndexData_invalidates_stale_cache:
  assumes "glBuffer = Some (bufferPtr, buffer)"
    and "\<not> (offsetAlignedFor srcType (of_nat indices) \<and> mSupportsDirectBinding buffer \<and>
            dstTypeOf (mRendererClass m) srcType count translated fixed = srcType)"
    and "mStaticIndexBuffer buffer = Some sb"
    and "getBufferSize C sb \<noteq> 0"
    and "getIndexType C sb \<noteq> dstTypeOf (mRendererClass m) srcType count translated fixed"
  shows "\<exists>r t m1 b ev t0.
           prepareIndexData C m srcType count glBuffer indices mem translated fixed
             = (r, t, m1, Some (bufferPtr, b), Invalidate # GetData # ev) \<and>
           streamFromBuffer C m srcType
               (dstTypeOf (mRendererClass m) srcType count translated fixed) count
               (of_nat indices) (invalidateStaticData C buffer) t0 fixed
             = (r, t, m1, b, GetData # ev) \<and>
           StaticIndex \<notin> set (touched ev) \<and>
           b = (if r = None
                then promoteStaticUsage C (invalidateStaticData C buffer)
                       (push_bit (bytesShift (GetTypeInfo srcType)) count)
                else invalidateStaticData C buffer)"
proof -
  let ?d = "dstTypeOf (mRendererClass m) srcType count translated fixed"
  let ?t0 = "translated\<lparr>indexType := ?d,
                       srcIndexData :=
                         (srcIndexData translated)\<lparr>srcBuffer := map_option fst glBuffer,
                                                    srcIndices := indices,
                                                    srcIndexType := srcType,
                                                    srcCount := count\<rparr>,
                       storage := None\<rparr>"
  from streamFromBuffer_shape [of C m srcType ?d count "of_nat indices" "invalidateStaticData C buffer" ?t0 fixed]
  obtain r t m1 b ev where
    s: "streamFromBuffer C m srcType ?d count (of_nat indices) (invalidateStaticData C buffer) ?t0 fixed
          = (r, t, m1, b, GetData # ev)"
    and rest: "StaticIndex \<notin> set (touched ev)"
      "b = (if r = None then promoteStaticUsage C (invalidateStaticData C buffer)
               (push_bit (bytesShift (GetTypeInfo srcType)) count)
            else invalidateStaticData C buffer)"
    by blast
  have "prepareIndexData C m srcType count glBuffer indices mem translated fixed
             = (r, t, m1, Some (bufferPtr, b), Invalidate # GetData # ev)"
    unfolding prepareIndexData_def Let_def
    using assms s by (simp split: if_splits)
  with s rest show ?thesis by blast
qed


theorem prepareIndexData_invalidates_stale_cache_witness:
  "\<exists>t m1 b ev.
     prepareIndexData scratchCollaborators (freshManager RENDERER_D3D11) GL_UNSIGNED_SHORT 3
       (Some (7, exampleBuffer False (Some (exampleCache 6 GL_UNSIGNED_SHORT))
                   (store_GLushorts [5, 65535, 7])))
       0 [] (blankTranslated 65535 3) False
     = (None, t, m1, Some (7, b), Invalidate # GetData # ev) \<and>
     StaticIndex \<notin> set (touched ev) \<and> mStaticIndexBuffer b = None"
proof -
  let ?B = "exampleBuffer False (Some (exampleCache 6 GL_UNSIGNED_SHORT))
              (store_GLushorts [5, 65535, 7])"
  let ?call = "prepareIndexData scratchCollaborators (freshManager RENDERER_D3D11)
       GL_UNSIGNED_SHORT 3 (Some (7, ?B)) 0 [] (blankTranslated 65535 3) False"
  have d: "dstTypeOf (mRendererClass (freshManager RENDERER_D3D11)) GL_UNSIGNED_SHORT 3
             (blankTranslated 65535 3) False = GL_UNSIGNED_INT"
    by code_simp
  have h2: "\<not> (offsetAlignedFor GL_UNSIGNED_SHORT (of_nat 0) \<and> mSupportsDirectBinding ?B \<and>
            dstTypeOf (mRendererClass (freshManager RENDERER_D3D11)) GL_UNSIGNED_SHORT 3
              (blankTranslated 65535 3) False = GL_UNSIGNED_SHORT)"
    by (simp add: exampleBuffer_def)
  have h3: "mStaticIndexBuffer ?B = Some (exampleCache 6 GL_UNSIGNED_SHORT)"
    by (simp add: exampleBuffer_def)
  have h4: "getBufferSize scratchCollaborators (exampleCache 6 GL_UNSIGNED_SHORT) \<noteq> 0"
    by (simp add: scratchCollaborators_def exampleCache_def)
  have h5: "getIndexType scratchCollaborators (exampleCache 6 GL_UNSIGNED_SHORT) \<noteq>
      dstTypeOf (mRendererClass (freshManager RENDERER_D3D11)) GL_UNSIGNED_SHORT 3
        (blankTranslated 65535 3) False"
    by (simp add: d scratchCollaborators_def exampleCache_def)
  have ok: "fst ?call = None"
    by code_simp
  have inv: "invalidateStaticData scratchCollaborators ?B = ?B\<lparr>mStaticIndexBuffer := None\<rparr>"
    by (simp add: scratchCollaborators_def)
  from prepareIndexData_invalidates_stale_cache [OF refl h2 h3 h4 h5, where mem = "[]"]
  obtain r t m1 b ev where
    "?call = (r, t, m1, Some (7, b), Invalidate # GetData # ev)"
    "StaticIndex \<notin> set (touched ev)"
    "b = (if r = None
          then promoteStaticUsage scratchCollaborators
                 (invalidateStaticData scratchCollaborators ?B)
                 (push_bit (bytesShift (GetTypeInfo GL_UNSIGNED_SHORT)) 3)
          else invalidateStaticData scratchCollaborators ?B)"
    by blast
  with ok inv show ?thesis
    by (auto simp: scratchCollaborators_def)
qed

section \<open>Streaming from a buffer promotes its static usage\<close>

lemma promotions_append: "promotions (xs @ ys) = promotions xs @ promotions ys"
  by (induction xs rule: promotions.induct) auto

lemma written_append: "written (xs @ ys) = written xs @ written ys"
  by (induction xs rule: written.induct) auto

lemma StreamInIndexBuffer_success:
  "StreamInIndexBuffer C w b data c s d u = (Inr off, b', ev) \<Longrightarrow>
     \<exists>out. ConvertIndices s d data c u = Inr out \<and>
       ev = [Reserve w (push_bit (bytesShift (GetTypeInfo d)) c) d,
             Map w (push_bit (bytesShift (GetTypeInfo d)) c), Write w out, Unmap w]"
  unfolding StreamInIndexBuffer_def Let_def
  by (auto split: if_splits prod.splits option.splits sum.splits)

lemma getStreamingIndexBuffer_log:
  "getStreamingIndexBuffer C m d = (r, m1, ev) \<Longrightarrow> promotions ev = [] \<and> written ev = []"
  unfolding getStreamingIndexBuffer_def
  by (auto split: if_splits prod.splits option.splits sum.splits)

lemma streamIndexData_success:
  assumes "streamIndexData C m data c s d u t = (None, t', m', ev)"
  shows "\<exists>ev0 out. ConvertIndices s d data c u = Inr out \<and>
       ev = ev0 @ [Write (streamingSlot d) out, Unmap (streamingSlot d)] \<and>
       promotions ev0 = [] \<and> written ev0 = []"
proof -
  obtain r m1 ev1 where g: "getStreamingIndexBuffer C m d = (r, m1, ev1)"
    by (metis prod_cases3)
  from assms g obtain ib where r: "r = Inr ib"
    by (cases r) (auto simp: streamIndexData_def Let_def)
  obtain r2 b ev2 where st: "StreamInIndexBuffer C (streamingSlot d) ib data c s d u = (r2, b, ev2)"
    by (metis prod_cases3)
  from assms g r st obtain off where r2: "r2 = Inr off" and ev: "ev = ev1 @ ev2"
    by (cases r2) (auto simp: streamIndexData_def Let_def)
  from StreamInIndexBuffer_success [OF st [unfolded r2]] obtain out where
    out: "ConvertIndices s d data c u = Inr out"
    and ev2: "ev2 = [Reserve (streamingSlot d) (push_bit (bytesShift (GetTypeInfo d)) c) d,
             Map (streamingSlot d) (push_bit (bytesShift (GetTypeInfo d)) c),
             Write (streamingSlot d) out, Unmap (streamingSlot d)]"
    by blast
  let ?ev0 = "ev1 @ [Reserve (streamingSlot d) (push_bit (bytesShift (GetTypeInfo d)) c) d,
             Map (streamingSlot d) (push_bit (bytesShift (GetTypeInfo d)) c)]"
  have "ev = ?ev0 @ [Write (streamingSlot d) out, Unmap (streamingSlot d)]"
    using ev ev2 by simp
  moreover have "promotions ?ev0 = [] \<and> written ?ev0 = []"
    using getStreamingIndexBuffer_log [OF g] by (simp add: promotions_append written_append)
  ultimately show ?thesis using out by blast
qed

lemma streamFromBuffer_success:
  assumes "streamFromBuffer C m s d c off buf t0 u = (None, t, m1, b, ev)"
  shows "\<exists>ev0 out bufferData. mData buf = Inr bufferData \<and>
       ConvertIndices s d (drop (unat off) bufferData) c u = Inr out \<and>
       ev = ev0 @ [Write (streamingSlot d) out, Unmap (streamingSlot d),
                   Promote (push_bit (bytesShift (GetTypeInfo s)) c)] \<and>
       promotions ev0 = [] \<and> written ev0 = [] \<and>
       b = promoteStaticUsage C buf (push_bit (bytesShift (GetTypeInfo s)) c)"
proof -
  from assms obtain bufferData where bd: "mData buf = Inr bufferData"
    by (cases "mData buf") (auto simp: streamFromBuffer_def)
  obtain r t' m' ev' where st: "streamIndexData C m (drop (unat off) bufferData) c s d u t0 = (r, t', m', ev')"
    by (metis prod_cases4)
  from assms bd st have r: "r = None" and ev: "ev = GetData # ev' @ [Promote (push_bit (bytesShift (GetTypeInfo s)) c)]"
    and b: "b = promoteStaticUsage C buf (push_bit (bytesShift (GetTypeInfo s)) c)"
    by (cases r; auto simp: streamFromBuffer_def)+
  from streamIndexData_success [OF st [unfolded r]] obtain ev0 out where
    "ConvertIndices s d (drop (unat off) bufferData) c u = Inr out"
    "ev' = ev0 @ [Write (streamingSlot d) out, Unmap (streamingSlot d)]"
    "promotions ev0 = []" "written ev0 = []"
    by blast
  with bd ev b show ?thesis
    by (intro exI [of _ "GetData # ev0"] exI [of _ out] exI [of _ bufferData]) simp
qed

lemma unat_byte_size:
  "unat (push_bit (bytesShift (GetTypeInfo s)) (c :: GLuint)) =
     (unat c * unat (bytes (GetTypeInfo s))) mod 2 ^ 32"
proof (cases s)
  case GL_UNSIGNED_BYTE
  have "unat c < 2 ^ 32" using unsigned_less [of c] by simp
  with GL_UNSIGNED_BYTE show ?thesis by simp
next
  case GL_UNSIGNED_SHORT
  then show ?thesis by (simp add: push_bit_eq_mult unat_word_ariths)
next
  case GL_UNSIGNED_INT
  then show ?thesis by (simp add: push_bit_eq_mult unat_word_ariths)
qed

lemma prepareIndexData_stream_branch:
  assumes "glBuffer = Some (bufferPtr, buffer)"
    and "\<not> (offsetAlignedFor srcType (of_nat indices) \<and> mSupportsDirectBinding buffer \<and>
            dstTypeOf (mRendererClass m) srcType count translated fixed = srcType)"
    and "\<not> offsetAlignedFor srcType (of_nat indices) \<or> mStaticIndexBuffer buffer = None \<or>
         (\<exists>sb. mStaticIndexBuffer buffer = Some sb \<and> getBufferSize C sb \<noteq> 0 \<and>
            getIndexType C sb \<noteq> dstTypeOf (mRendererClass m) srcType count translated fixed)"
    and "streamFromBuffer C m srcType (dstTypeOf (mRendererClass m) srcType count translated fixed)
           count (of_nat indices)
           (if (\<exists>sb. mStaticIndexBuffer buffer = Some sb \<and> getBufferSize C sb \<noteq> 0 \<and>
                 \<not> (offsetAlignedFor srcType (of_nat indices) \<and>
                    getIndexType C sb = dstTypeOf (mRendererClass m) srcType count translated fixed))
            then invalidateStaticData C buffer else buffer)
           (translated\<lparr>indexType := dstTypeOf (mRendererClass m) srcType count translated fixed,
                       srcIndexData :=
                         (srcIndexData translated)\<lparr>srcBuffer := map_option fst glBuffer,
                                                    srcIndices := indices,
                                                    srcIndexType := srcType,
                                                    srcCount := count\<rparr>,
                       storage := None\<rparr>) fixed = (r, t, m1, b, ev)"
  shows "prepareIndexData C m srcType count glBuffer indices mem translated fixed
           = (r, t, m1, Some (bufferPtr, b),
              (if (\<exists>sb. mStaticIndexBuffer buffer = Some sb \<and> getBufferSize C sb \<noteq> 0 \<and>
                 \<not> (offsetAlignedFor srcType (of_nat indices) \<and>
                    getIndexType C sb = dstTypeOf (mRendererClass m) srcType count translated fixed))
               then [Invalidate] else []) @ ev)"
proof (cases "mStaticIndexBuffer buffer")
  case None
  with assms(1,2,4) show ?thesis
    unfolding prepareIndexData_def Let_def by auto
next
  case (Some sb)
  show ?thesis
  proof (cases "offsetAlignedFor srcType (of_nat indices)")
    case True
    with Some assms(3) have st: "getBufferSize C sb \<noteq> 0"
      "getIndexType C sb \<noteq> dstTypeOf (mRendererClass m) srcType count translated fixed"
      by auto
    with Some True assms(1,2,4) show ?thesis
      unfolding prepareIndexData_def Let_def by auto
  next
    case False
    with Some assms(1,2,4) show ?thesis
      unfolding prepareIndexData_def Let_def by (cases "getBufferSize C sb = 0") auto
  qed
qed


text \<open>
  C4, as the code has it. A buffer-backed call that does not bind directly and has no usable
  static index buffer (the offset is not aligned, or there is none, or the one there is
  initialized with another index type) streams. When it succeeds, the log ends with the
  store of the converted indices, the unmap, and one call of \<^verbatim>\<open>promoteStaticUsage\<close>, the only
  one of the call. Its argument is \<^verbatim>\<open>count << srcTypeInfo.bytesShift\<close>: the size in bytes of
  \<open>count\<close> source elements (in 32-bit arithmetic), not the number of elements.
\<close>

theorem prepareIndexData_promotes_byte_size:
  assumes "glBuffer = Some (bufferPtr, buffer)"
    and "\<not> (offsetAlignedFor srcType (of_nat indices) \<and> mSupportsDirectBinding buffer \<and>
            dstTypeOf (mRendererClass m) srcType count translated fixed = srcType)"
    and "\<not> offsetAlignedFor srcType (of_nat indices) \<or> mStaticIndexBuffer buffer = None \<or>
         (\<exists>sb. mStaticIndexBuffer buffer = Some sb \<and> getBufferSize C sb \<noteq> 0 \<and>
            getIndexType C sb \<noteq> dstTypeOf (mRendererClass m) srcType count translated fixed)"
    and "fst (prepareIndexData C m srcType count glBuffer indices mem translated fixed) = None"
  shows "\<exists>t m1 b0 ev out bufferData.
           prepareIndexData C m srcType count glBuffer indices mem translated fixed
             = (None, t, m1,
                Some (bufferPtr,
                  promoteStaticUsage C b0 (push_bit (bytesShift (GetTypeInfo srcType)) count)),
                ev @ [Write (streamingSlot (dstTypeOf (mRendererClass m) srcType count translated fixed)) out,
                      Unmap (streamingSlot (dstTypeOf (mRendererClass m) srcType count translated fixed)),
                      Promote (push_bit (bytesShift (GetTypeInfo srcType)) count)]) \<and>
           promotions ev = [] \<and>
           (b0 = buffer \<or> b0 = invalidateStaticData C buffer) \<and>
           mData b0 = Inr bufferData \<and>
           ConvertIndices srcType (dstTypeOf (mRendererClass m) srcType count translated fixed)
             (drop (unat (of_nat indices :: GLuint)) bufferData) count fixed = Inr out \<and>
           unat (push_bit (bytesShift (GetTypeInfo srcType)) count) =
             (unat count * unat (bytes (GetTypeInfo srcType))) mod 2 ^ 32"
proof -
  define d where "d = dstTypeOf (mRendererClass m) srcType count translated fixed"
  define n where "n = push_bit (bytesShift (GetTypeInfo srcType)) count"
  define t0 where "t0 = translated\<lparr>indexType := d,
                       srcIndexData :=
                         (srcIndexData translated)\<lparr>srcBuffer := map_option fst glBuffer,
                                                    srcIndices := indices,
                                                    srcIndexType := srcType,
                                                    srcCount := count\<rparr>,
                       storage := None\<rparr>"
  define stale where "stale = (\<exists>sb. mStaticIndexBuffer buffer = Some sb \<and>
            getBufferSize C sb \<noteq> 0 \<and>
            \<not> (offsetAlignedFor srcType (of_nat indices) \<and> getIndexType C sb = d))"
  define b0 where "b0 = (if stale then invalidateStaticData C buffer else buffer)"
  define e0 where "e0 = (if stale then [Invalidate] else [])"
  define off where "off = (of_nat indices :: GLuint)"
  define res where "res = streamFromBuffer C m srcType d count off b0 t0 fixed"
  obtain r t m1 b ev where s: "res = (r, t, m1, b, ev)"
    by (cases res) blast
  have p: "prepareIndexData C m srcType count glBuffer indices mem translated fixed
             = (r, t, m1, Some (bufferPtr, b), e0 @ ev)"
    using prepareIndexData_stream_branch [OF assms(1,2,3), of r t m1 b ev] s
    unfolding res_def d_def t0_def stale_def b0_def e0_def off_def by simp
  with assms(4) have r: "r = None" by simp
  from s r have "streamFromBuffer C m srcType d count off b0 t0 fixed = (None, t, m1, b, ev)"
    by (simp add: res_def)
  from streamFromBuffer_success [OF this] obtain ev0 out bufferData where
    f: "mData b0 = Inr bufferData"
      "ConvertIndices srcType d (drop (unat off) bufferData) count fixed = Inr out"
      "ev = ev0 @ [Write (streamingSlot d) out, Unmap (streamingSlot d), Promote n]"
      "promotions ev0 = []"
      "b = promoteStaticUsage C b0 n"
    unfolding n_def by blast
  have q: "promotions (e0 @ ev0) = []"
    using f(4) by (simp add: promotions_append e0_def)
  have "prepareIndexData C m srcType count glBuffer indices mem translated fixed
             = (None, t, m1, Some (bufferPtr, promoteStaticUsage C b0 n),
                (e0 @ ev0) @ [Write (streamingSlot d) out, Unmap (streamingSlot d), Promote n])"
    using p r f(3,5) by simp
  moreover have "b0 = buffer \<or> b0 = invalidateStaticData C buffer"
    by (simp add: b0_def)
  moreover have "unat n = (unat count * unat (bytes (GetTypeInfo srcType))) mod 2 ^ 32"
    unfolding n_def by (rule unat_byte_size)
  ultimately have "\<exists>t m1 b0 ev out bufferData.
           prepareIndexData C m srcType count glBuffer indices mem translated fixed
             = (None, t, m1, Some (bufferPtr, promoteStaticUsage C b0 n),
                ev @ [Write (streamingSlot d) out, Unmap (streamingSlot d), Promote n]) \<and>
           promotions ev = [] \<and>
           (b0 = buffer \<or> b0 = invalidateStaticData C buffer) \<and>
           mData b0 = Inr bufferData \<and>
           ConvertIndices srcType d (drop (unat off) bufferData) count fixed = Inr out \<and>
           unat n = (unat count * unat (bytes (GetTypeInfo srcType))) mod 2 ^ 32"
    using f(1,2) q by blast
  then show ?thesis
    unfolding d_def n_def off_def .
qed


text \<open>
  Three 16-bit indices streamed from a buffer: the promotion is told 6, not 3.
\<close>

theorem prepareIndexData_promotes_count_counterexample:
  "fst (prepareIndexData scratchCollaborators (freshManager RENDERER_D3D11) GL_UNSIGNED_SHORT 3
          (Some (7, exampleBuffer False None (store_GLushorts [5, 6, 7])))
          0 [] (blankTranslated 7 3) True) = None \<and>
   promotions (snd (snd (snd (snd (prepareIndexData scratchCollaborators
          (freshManager RENDERER_D3D11) GL_UNSIGNED_SHORT 3
          (Some (7, exampleBuffer False None (store_GLushorts [5, 6, 7])))
          0 [] (blankTranslated 7 3) True))))) = [6] \<and>
   promotions (snd (snd (snd (snd (prepareIndexData scratchCollaborators
          (freshManager RENDERER_D3D11) GL_UNSIGNED_SHORT 3
          (Some (7, exampleBuffer False None (store_GLushorts [5, 6, 7])))
          0 [] (blankTranslated 7 3) True))))) \<noteq> [3]"
  by code_simp

theorem prepareIndexData_promotes_byte_size_witness:
  "\<exists>t m1 b ev out.
     prepareIndexData scratchCollaborators (freshManager RENDERER_D3D11) GL_UNSIGNED_SHORT 3
       (Some (7, exampleBuffer False None (store_GLushorts [5, 6, 7])))
       0 [] (blankTranslated 7 3) True
     = (None, t, m1, Some (7, b),
        ev @ [Write StreamingShort out, Unmap StreamingShort, Promote 6]) \<and>
     promotions ev = [] \<and> out = store_GLushorts [5, 6, 7]"
proof -
  let ?B = "exampleBuffer False None (store_GLushorts [5, 6, 7])"
  let ?call = "prepareIndexData scratchCollaborators (freshManager RENDERER_D3D11)
       GL_UNSIGNED_SHORT 3 (Some (7, ?B)) 0 [] (blankTranslated 7 3) True"
  have d: "dstTypeOf (mRendererClass (freshManager RENDERER_D3D11)) GL_UNSIGNED_SHORT 3
             (blankTranslated 7 3) True = GL_UNSIGNED_SHORT"
    by code_simp
  have h2: "\<not> (offsetAlignedFor GL_UNSIGNED_SHORT (of_nat 0) \<and> mSupportsDirectBinding ?B \<and>
            dstTypeOf (mRendererClass (freshManager RENDERER_D3D11)) GL_UNSIGNED_SHORT 3
              (blankTranslated 7 3) True = GL_UNSIGNED_SHORT)"
    by (simp add: exampleBuffer_def)
  have h3: "\<not> offsetAlignedFor GL_UNSIGNED_SHORT (of_nat 0) \<or> mStaticIndexBuffer ?B = None \<or>
         (\<exists>sb. mStaticIndexBuffer ?B = Some sb \<and> getBufferSize scratchCollaborators sb \<noteq> 0 \<and>
            getIndexType scratchCollaborators sb \<noteq>
              dstTypeOf (mRendererClass (freshManager RENDERER_D3D11)) GL_UNSIGNED_SHORT 3
                (blankTranslated 7 3) True)"
    by (simp add: exampleBuffer_def)
  have ok: "fst ?call = None"
    by code_simp
  have inv: "invalidateStaticData scratchCollaborators ?B = ?B"
    by (simp add: scratchCollaborators_def exampleBuffer_def)
  have data: "mData ?B = Inr (store_GLushorts [5, 6, 7])"
    by (simp add: exampleBuffer_def)
  have conv: "ConvertIndices GL_UNSIGNED_SHORT GL_UNSIGNED_SHORT
      (drop (unat (of_nat 0 :: GLuint)) (store_GLushorts [5, 6, 7])) 3 True
        = Inr (store_GLushorts [5, 6, 7])"
    by code_simp
  from prepareIndexData_promotes_byte_size [OF refl h2 h3 ok]
  obtain t m1 b0 ev out bufferData where
    "?call = (None, t, m1,
        Some (7, promoteStaticUsage scratchCollaborators b0
                   (push_bit (bytesShift (GetTypeInfo GL_UNSIGNED_SHORT)) 3)),
        ev @ [Write (streamingSlot GL_UNSIGNED_SHORT) out, Unmap (streamingSlot GL_UNSIGNED_SHORT),
              Promote (push_bit (bytesShift (GetTypeInfo GL_UNSIGNED_SHORT)) 3)])"
    "promotions ev = []"
    "b0 = ?B \<or> b0 = invalidateStaticData scratchCollaborators ?B"
    "mData b0 = Inr bufferData"
    "ConvertIndices GL_UNSIGNED_SHORT GL_UNSIGNED_SHORT
       (drop (unat (of_nat 0 :: GLuint)) bufferData) 3 True = Inr out"
    unfolding d by blast
  with inv data conv show ?thesis
    by (auto simp: streamingSlot_def)
qed

section \<open>Using the static index buffer\<close>

lemma prepareIndexData_static_branch:
  assumes "glBuffer = Some (bufferPtr, buffer)"
    and "\<not> (offsetAlignedFor srcType (of_nat indices) \<and> mSupportsDirectBinding buffer \<and>
            dstTypeOf (mRendererClass m) srcType count translated fixed = srcType)"
    and "offsetAlignedFor srcType (of_nat indices)"
    and "mStaticIndexBuffer buffer = Some sb"
    and "getBufferSize C sb = 0 \<or>
         getIndexType C sb = dstTypeOf (mRendererClass m) srcType count translated fixed"
    and "useStaticBuffer C m srcType (dstTypeOf (mRendererClass m) srcType count translated fixed)
           (of_nat indices) buffer sb (getBufferSize C sb \<noteq> 0)
           (translated\<lparr>indexType := dstTypeOf (mRendererClass m) srcType count translated fixed,
                       srcIndexData :=
                         (srcIndexData translated)\<lparr>srcBuffer := map_option fst glBuffer,
                                                    srcIndices := indices,
                                                    srcIndexType := srcType,
                                                    srcCount := count\<rparr>,
                       storage := None\<rparr>) fixed = (r, t, m1, b, ev)"
  shows "prepareIndexData C m srcType count glBuffer indices mem translated fixed
           = (r, t, m1, Some (bufferPtr, b), ev)"
  using assms unfolding prepareIndexData_def Let_def by auto

lemma unat_size_as_GLuint: "unat (ucast (n :: size_t) :: GLuint) = unat n mod 2 ^ 32"
  by (simp add: unsigned_ucast_eq take_bit_eq_mod)

lemma StreamInIndexBuffer_success_state:
  "StreamInIndexBuffer C w b data c s d u = (Inr off, b', ev) \<Longrightarrow>
     \<exists>out b1 b2. ConvertIndices s d data c u = Inr out \<and>
       reserveBufferSpace C b (push_bit (bytesShift (GetTypeInfo d)) c) d = (None, b1) \<and>
       mapBuffer C b1 (push_bit (bytesShift (GetTypeInfo d)) c) = (Inr off, b2) \<and>
       unmapBuffer C (writeMapped C b2 out) = (None, b') \<and>
       ev = [Reserve w (push_bit (bytesShift (GetTypeInfo d)) c) d,
             Map w (push_bit (bytesShift (GetTypeInfo d)) c), Write w out, Unmap w]"
  unfolding StreamInIndexBuffer_def Let_def
  by (auto split: if_splits prod.splits option.splits sum.splits)

lemma useStaticBuffer_initialized:
  "useStaticBuffer C m s d off buffer sb True t0 u =
     (None,
      t0\<lparr>indexBuffer := Some (getIndexBuffer C sb), serial := getSerial C sb,
         startIndex := drop_bit (bytesShift (GetTypeInfo s)) off,
         startOffset := push_bit (bytesShift (GetTypeInfo d))
                          (drop_bit (bytesShift (GetTypeInfo s)) off)\<rparr>,
      m, buffer\<lparr>mStaticIndexBuffer := Some sb\<rparr>, [])"
  by (simp add: useStaticBuffer_def Let_def)

lemma useStaticBuffer_build_state:
  assumes "useStaticBuffer C m s d off buffer sb False t0 u = (None, t, m1, b, ev)"
  shows "\<exists>sb' bufferData out b1 b2 off' cc.
      cc = drop_bit (bytesShift (GetTypeInfo s)) (ucast (mSize buffer) :: GLuint) \<and>
      m1 = m \<and> b = buffer\<lparr>mStaticIndexBuffer := Some sb'\<rparr> \<and>
      t = t0\<lparr>indexBuffer := Some (getIndexBuffer C sb'), serial := getSerial C sb',
              startIndex := drop_bit (bytesShift (GetTypeInfo s)) off,
              startOffset := push_bit (bytesShift (GetTypeInfo d))
                               (drop_bit (bytesShift (GetTypeInfo s)) off)\<rparr> \<and>
      mData buffer = Inr bufferData \<and>
      ConvertIndices s d bufferData cc u = Inr out \<and>
      reserveBufferSpace C sb (push_bit (bytesShift (GetTypeInfo d)) cc) d = (None, b1) \<and>
      mapBuffer C b1 (push_bit (bytesShift (GetTypeInfo d)) cc) = (Inr off', b2) \<and>
      unmapBuffer C (writeMapped C b2 out) = (None, sb') \<and>
      ev = [GetData,
            Reserve StaticIndex (push_bit (bytesShift (GetTypeInfo d)) cc) d,
            Map StaticIndex (push_bit (bytesShift (GetTypeInfo d)) cc),
            Write StaticIndex out, Unmap StaticIndex]"
proof -
  define cc where "cc = drop_bit (bytesShift (GetTypeInfo s)) (ucast (mSize buffer) :: GLuint)"
  from assms obtain bufferData where bd: "mData buffer = Inr bufferData"
    by (cases "mData buffer") (auto simp: useStaticBuffer_def Let_def)
  define res where "res = StreamInIndexBuffer C StaticIndex sb bufferData cc s d u"
  obtain r2 sb' ev2 where st: "res = (r2, sb', ev2)"
    by (cases res) blast
  from assms bd st obtain off' where r2: "r2 = Inr off'"
    by (cases r2) (auto simp: useStaticBuffer_def Let_def res_def cc_def)
  from st r2 have st': "StreamInIndexBuffer C StaticIndex sb bufferData cc s d u = (Inr off', sb', ev2)"
    by (simp add: res_def)
  from StreamInIndexBuffer_success_state [OF st'] obtain out b1 b2 where
    f: "ConvertIndices s d bufferData cc u = Inr out"
      "reserveBufferSpace C sb (push_bit (bytesShift (GetTypeInfo d)) cc) d = (None, b1)"
      "mapBuffer C b1 (push_bit (bytesShift (GetTypeInfo d)) cc) = (Inr off', b2)"
      "unmapBuffer C (writeMapped C b2 out) = (None, sb')"
      "ev2 = [Reserve StaticIndex (push_bit (bytesShift (GetTypeInfo d)) cc) d,
             Map StaticIndex (push_bit (bytesShift (GetTypeInfo d)) cc), Write StaticIndex out,
             Unmap StaticIndex]"
    by blast
  from assms bd st' have
    g: "m1 = m" "b = buffer\<lparr>mStaticIndexBuffer := Some sb'\<rparr>" "ev = GetData # ev2"
    "t = t0\<lparr>indexBuffer := Some (getIndexBuffer C sb'), serial := getSerial C sb',
              startIndex := drop_bit (bytesShift (GetTypeInfo s)) off,
              startOffset := push_bit (bytesShift (GetTypeInfo d))
                               (drop_bit (bytesShift (GetTypeInfo s)) off)\<rparr>"
    by (auto simp: useStaticBuffer_def Let_def cc_def)
  from bd f g cc_def show ?thesis
    by blast
qed

lemma same_static: "mStaticIndexBuffer buffer = Some sb \<Longrightarrow>
    buffer\<lparr>mStaticIndexBuffer := Some sb\<rparr> = buffer"
  by (cases buffer) simp


text \<open>
  C6. A buffer-backed call that does not bind directly, has an aligned offset and finds a
  static index buffer that is either empty or of the destination index type takes the
  static branch. The descriptor then names no storage, the static buffer's index buffer
  and serial, the element offset (byte offset divided by the source element size) as start
  index, and that index times the destination element size as start offset, in
  \<^verbatim>\<open>unsigned int\<close> arithmetic.

  An initialized static buffer is used as it is: the call always succeeds, calls no
  collaborator and leaves manager and buffer unchanged. An empty one is filled first, and
  that can fail; when the call succeeds, the buffer data was read and converted from its
  first byte, for as many elements as the buffer's size holds, whatever the offset and
  count of the draw, and the static buffer the call leaves in the buffer is the one
  obtained by reserving the space, mapping it, storing the converted bytes in the mapped
  region and unmapping. The manager is untouched.
\<close>

theorem prepareIndexData_cached_use:
  assumes "glBuffer = Some (bufferPtr, buffer)"
    and "\<not> (offsetAlignedFor srcType (of_nat indices) \<and> mSupportsDirectBinding buffer \<and>
            dstTypeOf (mRendererClass m) srcType count translated fixed = srcType)"
    and "offsetAlignedFor srcType (of_nat indices)"
    and "mStaticIndexBuffer buffer = Some sb"
    and "getBufferSize C sb = 0 \<or>
         getIndexType C sb = dstTypeOf (mRendererClass m) srcType count translated fixed"
  shows "if getBufferSize C sb \<noteq> 0
         then (\<exists>t. prepareIndexData C m srcType count glBuffer indices mem translated fixed
                  = (None, t, m, Some (bufferPtr, buffer), []) \<and>
                storage t = None \<and>
                indexBuffer t = Some (getIndexBuffer C sb) \<and>
                serial t = getSerial C sb \<and>
                unat (startIndex t) =
                  (indices mod 2 ^ 32) div unat (bytes (GetTypeInfo srcType)) \<and>
                startOffset t = startIndex t * bytes (GetTypeInfo (dstTypeOf (mRendererClass m) srcType count translated fixed)))
         else (fst (prepareIndexData C m srcType count glBuffer indices mem translated fixed)
                 = None \<longrightarrow>
               (\<exists>t sb' bufferData out convertCount b1 b2 off'.
                prepareIndexData C m srcType count glBuffer indices mem translated fixed
                  = (None, t, m,
                     Some (bufferPtr, buffer\<lparr>mStaticIndexBuffer := Some sb'\<rparr>),
                     [GetData,
                      Reserve StaticIndex (convertCount * bytes (GetTypeInfo (dstTypeOf (mRendererClass m) srcType count translated fixed))) (dstTypeOf (mRendererClass m) srcType count translated fixed),
                      Map StaticIndex (convertCount * bytes (GetTypeInfo (dstTypeOf (mRendererClass m) srcType count translated fixed))),
                      Write StaticIndex out, Unmap StaticIndex]) \<and>
                storage t = None \<and>
                indexBuffer t = Some (getIndexBuffer C sb') \<and>
                serial t = getSerial C sb' \<and>
                unat (startIndex t) =
                  (indices mod 2 ^ 32) div unat (bytes (GetTypeInfo srcType)) \<and>
                startOffset t = startIndex t * bytes (GetTypeInfo (dstTypeOf (mRendererClass m) srcType count translated fixed)) \<and>
                mData buffer = Inr bufferData \<and>
                unat convertCount =
                  (unat (mSize buffer) mod 2 ^ 32) div unat (bytes (GetTypeInfo srcType)) \<and>
                ConvertIndices srcType (dstTypeOf (mRendererClass m) srcType count translated fixed) bufferData convertCount fixed = Inr out \<and>
                reserveBufferSpace C sb (convertCount * bytes (GetTypeInfo (dstTypeOf (mRendererClass m) srcType count translated fixed))) (dstTypeOf (mRendererClass m) srcType count translated fixed)
                  = (None, b1) \<and>
                mapBuffer C b1 (convertCount * bytes (GetTypeInfo (dstTypeOf (mRendererClass m) srcType count translated fixed))) = (Inr off', b2) \<and>
                unmapBuffer C (writeMapped C b2 out) = (None, sb')))"
proof -
  define d where "d = dstTypeOf (mRendererClass m) srcType count translated fixed"
  define t0 where "t0 = translated\<lparr>indexType := d,
                       srcIndexData :=
                         (srcIndexData translated)\<lparr>srcBuffer := map_option fst glBuffer,
                                                    srcIndices := indices,
                                                    srcIndexType := srcType,
                                                    srcCount := count\<rparr>,
                       storage := None\<rparr>"
  define off where "off = (of_nat indices :: GLuint)"
  define ini where "ini = (getBufferSize C sb \<noteq> 0)"
  define call where "call = prepareIndexData C m srcType count glBuffer indices mem translated
                              fixed"
  define res where "res = useStaticBuffer C m srcType d off buffer sb ini t0 fixed"
  obtain r t m1 b ev where s: "res = (r, t, m1, b, ev)"
    by (cases res) blast
  have p: "call = (r, t, m1, Some (bufferPtr, b), ev)"
    using prepareIndexData_static_branch [OF assms(1,2,3,4,5), of r t m1 b ev] s
    unfolding res_def d_def t0_def off_def ini_def call_def by simp
  have u: "unat off = indices mod 2 ^ 32"
    by (simp add: off_def unat_of_nat)
  have fields: "storage t' = None \<and> indexBuffer t' = Some (getIndexBuffer C x) \<and>
      serial t' = getSerial C x \<and>
      unat (startIndex t') = (indices mod 2 ^ 32) div unat (bytes (GetTypeInfo srcType)) \<and>
      startOffset t' = startIndex t' * bytes (GetTypeInfo d)"
    if "t' = t0\<lparr>indexBuffer := Some (getIndexBuffer C x), serial := getSerial C x,
              startIndex := drop_bit (bytesShift (GetTypeInfo srcType)) off,
              startOffset := push_bit (bytesShift (GetTypeInfo d))
                               (drop_bit (bytesShift (GetTypeInfo srcType)) off)\<rparr>"
    for t' x
    using that u by (simp add: t0_def unat_shift_right shift_left_times)
  show ?thesis
  proof (cases ini)
    case True
    with s have "r = None" "m1 = m" "b = buffer\<lparr>mStaticIndexBuffer := Some sb\<rparr>" "ev = []"
      "t = t0\<lparr>indexBuffer := Some (getIndexBuffer C sb), serial := getSerial C sb,
              startIndex := drop_bit (bytesShift (GetTypeInfo srcType)) off,
              startOffset := push_bit (bytesShift (GetTypeInfo d))
                               (drop_bit (bytesShift (GetTypeInfo srcType)) off)\<rparr>"
      by (simp_all add: res_def useStaticBuffer_initialized)
    with p fields [of t sb] same_static [OF assms(4)]
    have "\<exists>t. call = (None, t, m, Some (bufferPtr, buffer), []) \<and>
                storage t = None \<and>
                indexBuffer t = Some (getIndexBuffer C sb) \<and>
                serial t = getSerial C sb \<and>
                unat (startIndex t) =
                  (indices mod 2 ^ 32) div unat (bytes (GetTypeInfo srcType)) \<and>
                startOffset t = startIndex t * bytes (GetTypeInfo d)"
      by simp
    with True show ?thesis
      unfolding ini_def call_def d_def by simp
  next
    case False
    have "\<exists>t sb' bufferData out convertCount b1 b2 off'.
                call = (None, t, m,
                     Some (bufferPtr, buffer\<lparr>mStaticIndexBuffer := Some sb'\<rparr>),
                     [GetData,
                      Reserve StaticIndex (convertCount * bytes (GetTypeInfo d)) d,
                      Map StaticIndex (convertCount * bytes (GetTypeInfo d)),
                      Write StaticIndex out, Unmap StaticIndex]) \<and>
                storage t = None \<and>
                indexBuffer t = Some (getIndexBuffer C sb') \<and>
                serial t = getSerial C sb' \<and>
                unat (startIndex t) =
                  (indices mod 2 ^ 32) div unat (bytes (GetTypeInfo srcType)) \<and>
                startOffset t = startIndex t * bytes (GetTypeInfo d) \<and>
                mData buffer = Inr bufferData \<and>
                unat convertCount =
                  (unat (mSize buffer) mod 2 ^ 32) div unat (bytes (GetTypeInfo srcType)) \<and>
                ConvertIndices srcType d bufferData convertCount fixed = Inr out \<and>
                reserveBufferSpace C sb (convertCount * bytes (GetTypeInfo d)) d
                  = (None, b1) \<and>
                mapBuffer C b1 (convertCount * bytes (GetTypeInfo d)) = (Inr off', b2) \<and>
                unmapBuffer C (writeMapped C b2 out) = (None, sb')"
      if ok: "fst call = None"
    proof -
      from p ok have r: "r = None" by simp
      from s r False have "useStaticBuffer C m srcType d off buffer sb False t0 fixed
          = (None, t, m1, b, ev)"
        by (simp add: res_def)
      from useStaticBuffer_build_state [OF this]
      obtain sb' bufferData out b1 b2 off' cc where
        f: "cc = drop_bit (bytesShift (GetTypeInfo srcType)) (ucast (mSize buffer) :: GLuint)"
          "m1 = m" "b = buffer\<lparr>mStaticIndexBuffer := Some sb'\<rparr>"
          "t = t0\<lparr>indexBuffer := Some (getIndexBuffer C sb'), serial := getSerial C sb',
              startIndex := drop_bit (bytesShift (GetTypeInfo srcType)) off,
              startOffset := push_bit (bytesShift (GetTypeInfo d))
                               (drop_bit (bytesShift (GetTypeInfo srcType)) off)\<rparr>"
          "mData buffer = Inr bufferData"
          "ConvertIndices srcType d bufferData cc fixed = Inr out"
          "reserveBufferSpace C sb (push_bit (bytesShift (GetTypeInfo d)) cc) d = (None, b1)"
          "mapBuffer C b1 (push_bit (bytesShift (GetTypeInfo d)) cc) = (Inr off', b2)"
          "unmapBuffer C (writeMapped C b2 out) = (None, sb')"
          "ev = [GetData,
            Reserve StaticIndex (push_bit (bytesShift (GetTypeInfo d)) cc) d,
            Map StaticIndex (push_bit (bytesShift (GetTypeInfo d)) cc),
            Write StaticIndex out, Unmap StaticIndex]"
        by blast
      have ucc: "unat cc = (unat (mSize buffer) mod 2 ^ 32) div unat (bytes (GetTypeInfo srcType))"
        by (simp add: f(1) unat_shift_right unat_size_as_GLuint)
      have c: "call = (None, t, m,
                     Some (bufferPtr, buffer\<lparr>mStaticIndexBuffer := Some sb'\<rparr>),
                     [GetData,
                      Reserve StaticIndex (cc * bytes (GetTypeInfo d)) d,
                      Map StaticIndex (cc * bytes (GetTypeInfo d)),
                      Write StaticIndex out, Unmap StaticIndex])"
        using p r f(2,3,10) by (simp add: shift_left_times)
      from f(7,8) have rm: "reserveBufferSpace C sb (cc * bytes (GetTypeInfo d)) d = (None, b1)"
        "mapBuffer C b1 (cc * bytes (GetTypeInfo d)) = (Inr off', b2)"
        by (simp_all add: shift_left_times)
      from c fields [OF f(4)] f(5,6,9) ucc rm show ?thesis
        by blast
    qed
    with False show ?thesis
      unfolding ini_def call_def d_def by simp
  qed
qed


text \<open>
  Two draws of 8-bit indices from the same buffer. The first finds the static buffer empty
  and fills it with the four indices of the buffer widened to 16 bits, 255 remapped to
  65535, while drawing from offset 2. The second, at offset 1, reuses it without any call.
\<close>

theorem prepareIndexData_cached_use_witness:
  "(\<exists>t. prepareIndexData scratchCollaborators (freshManager RENDERER_D3D11) GL_UNSIGNED_BYTE 2
          (Some (7, exampleBuffer False (Some (exampleCache 0 GL_UNSIGNED_SHORT))
                      [1, 2, 255, 4]))
          2 [] (blankTranslated 255 2) True
        = (None, t, freshManager RENDERER_D3D11,
           Some (7, exampleBuffer False
                      (Some ((exampleCache 8 GL_UNSIGNED_SHORT)
                               \<lparr>content := store_GLushorts [1, 2, 65535, 4],
                                identityToken := 4\<rparr>))
                      [1, 2, 255, 4]),
           [GetData, Reserve StaticIndex 8 GL_UNSIGNED_SHORT, Map StaticIndex 8,
            Write StaticIndex (store_GLushorts [1, 2, 65535, 4]), Unmap StaticIndex]) \<and>
        indexBuffer t = Some 9 \<and> serial t = 4 \<and> startIndex t = 2 \<and> startOffset t = 4) \<and>
   (\<exists>t. prepareIndexData scratchCollaborators (freshManager RENDERER_D3D11) GL_UNSIGNED_BYTE 3
          (Some (7, exampleBuffer False
                      (Some ((exampleCache 8 GL_UNSIGNED_SHORT)
                               \<lparr>content := store_GLushorts [1, 2, 65535, 4],
                                identityToken := 4\<rparr>))
                      [1, 2, 255, 4]))
          1 [] (blankTranslated 255 3) True
        = (None, t, freshManager RENDERER_D3D11,
           Some (7, exampleBuffer False
                      (Some ((exampleCache 8 GL_UNSIGNED_SHORT)
                               \<lparr>content := store_GLushorts [1, 2, 65535, 4],
                                identityToken := 4\<rparr>))
                      [1, 2, 255, 4]),
           []) \<and>
        indexBuffer t = Some 9 \<and> serial t = 4 \<and> startIndex t = 1 \<and> startOffset t = 2)"
proof -
  let ?M = "freshManager RENDERER_D3D11"
  let ?empty = "exampleCache 0 GL_UNSIGNED_SHORT"
  let ?filled = "(exampleCache 8 GL_UNSIGNED_SHORT)
                   \<lparr>content := store_GLushorts [1, 2, 65535, 4], identityToken := 4\<rparr>"
  let ?B1 = "exampleBuffer False (Some ?empty) [1, 2, 255, 4]"
  let ?B2 = "exampleBuffer False (Some ?filled) [1, 2, 255, 4]"
  let ?call1 = "prepareIndexData scratchCollaborators ?M GL_UNSIGNED_BYTE 2 (Some (7, ?B1))
                  2 [] (blankTranslated 255 2) True"
  let ?call2 = "prepareIndexData scratchCollaborators ?M GL_UNSIGNED_BYTE 3 (Some (7, ?B2))
                  1 [] (blankTranslated 255 3) True"
  have d1: "dstTypeOf (mRendererClass ?M) GL_UNSIGNED_BYTE 2 (blankTranslated 255 2) True
              = GL_UNSIGNED_SHORT"
    and d2: "dstTypeOf (mRendererClass ?M) GL_UNSIGNED_BYTE 3 (blankTranslated 255 3) True
              = GL_UNSIGNED_SHORT"
    by code_simp+
  have nd1: "\<not> (offsetAlignedFor GL_UNSIGNED_BYTE (of_nat 2) \<and> mSupportsDirectBinding ?B1 \<and>
            dstTypeOf (mRendererClass ?M) GL_UNSIGNED_BYTE 2 (blankTranslated 255 2) True
              = GL_UNSIGNED_BYTE)"
    and nd2: "\<not> (offsetAlignedFor GL_UNSIGNED_BYTE (of_nat 1) \<and> mSupportsDirectBinding ?B2 \<and>
            dstTypeOf (mRendererClass ?M) GL_UNSIGNED_BYTE 3 (blankTranslated 255 3) True
              = GL_UNSIGNED_BYTE)"
    by (simp_all add: exampleBuffer_def)
  have al1: "offsetAlignedFor GL_UNSIGNED_BYTE (of_nat 2)"
    and al2: "offsetAlignedFor GL_UNSIGNED_BYTE (of_nat 1)"
    by (simp_all add: offsetAlignedFor_def)
  have st1: "mStaticIndexBuffer ?B1 = Some ?empty"
    and st2: "mStaticIndexBuffer ?B2 = Some ?filled"
    by (simp_all add: exampleBuffer_def)
  have sz1: "getBufferSize scratchCollaborators ?empty = 0"
    and sz2: "getBufferSize scratchCollaborators ?filled \<noteq> 0"
    and ty2: "getIndexType scratchCollaborators ?filled = GL_UNSIGNED_SHORT"
    by (simp_all add: scratchCollaborators_def exampleCache_def)
  have u1: "getBufferSize scratchCollaborators ?empty = 0 \<or>
      getIndexType scratchCollaborators ?empty =
        dstTypeOf (mRendererClass ?M) GL_UNSIGNED_BYTE 2 (blankTranslated 255 2) True"
    using sz1 by simp
  have u2: "getBufferSize scratchCollaborators ?filled = 0 \<or>
      getIndexType scratchCollaborators ?filled =
        dstTypeOf (mRendererClass ?M) GL_UNSIGNED_BYTE 3 (blankTranslated 255 3) True"
    using ty2 d2 by simp
  have ok1: "fst ?call1 = None"
    by code_simp
  have r1: "snd (snd (snd ?call1)) =
      (Some (7, ?B2),
       [GetData, Reserve StaticIndex 8 GL_UNSIGNED_SHORT, Map StaticIndex 8,
        Write StaticIndex (store_GLushorts [1, 2, 65535, 4]), Unmap StaticIndex])"
    by code_simp
  have hd: "getIndexBuffer scratchCollaborators ?filled = 9"
    "getSerial scratchCollaborators ?filled = 4"
    by (simp_all add: scratchCollaborators_def exampleCache_def)
  have "fst ?call1 = None \<longrightarrow>
      (\<exists>t sb'. ?call1 = (None, t, ?M, Some (7, ?B1\<lparr>mStaticIndexBuffer := Some sb'\<rparr>),
                   snd (snd (snd (snd ?call1)))) \<and>
         indexBuffer t = Some (getIndexBuffer scratchCollaborators sb') \<and>
         serial t = getSerial scratchCollaborators sb' \<and>
         unat (startIndex t) = (2 mod 2 ^ 32) div unat (bytes (GetTypeInfo GL_UNSIGNED_BYTE)) \<and>
         startOffset t = startIndex t * bytes (GetTypeInfo GL_UNSIGNED_SHORT))"
    using prepareIndexData_cached_use [OF refl nd1 al1 st1 u1, where mem = "[]" and bufferPtr = 7]
      sz1
    unfolding d1 by (simp only: if_False not_not simp_thms) fastforce
  with ok1 obtain t1 sb' where
    e1: "?call1 = (None, t1, ?M, Some (7, ?B1\<lparr>mStaticIndexBuffer := Some sb'\<rparr>),
                   snd (snd (snd (snd ?call1))))"
    and f1: "indexBuffer t1 = Some (getIndexBuffer scratchCollaborators sb')"
      "serial t1 = getSerial scratchCollaborators sb'"
      "unat (startIndex t1) = (2 mod 2 ^ 32) div unat (bytes (GetTypeInfo GL_UNSIGNED_BYTE))"
      "startOffset t1 = startIndex t1 * bytes (GetTypeInfo GL_UNSIGNED_SHORT)"
    by blast
  from e1 r1 have sb': "sb' = ?filled"
    by (simp add: exampleBuffer_def)
  from f1(3) have i1: "startIndex t1 = 2"
    by (simp add: word_unat_eq_iff)
  from e1 r1 sb' f1 i1 hd have first:
    "\<exists>t. ?call1 = (None, t, ?M, Some (7, ?B2),
           [GetData, Reserve StaticIndex 8 GL_UNSIGNED_SHORT, Map StaticIndex 8,
            Write StaticIndex (store_GLushorts [1, 2, 65535, 4]), Unmap StaticIndex]) \<and>
        indexBuffer t = Some 9 \<and> serial t = 4 \<and> startIndex t = 2 \<and> startOffset t = 4"
    by (intro exI [of _ t1]) (simp add: exampleBuffer_def)
  have "\<exists>t. ?call2 = (None, t, ?M, Some (7, ?B2), []) \<and>
         indexBuffer t = Some (getIndexBuffer scratchCollaborators ?filled) \<and>
         serial t = getSerial scratchCollaborators ?filled \<and>
         unat (startIndex t) = (1 mod 2 ^ 32) div unat (bytes (GetTypeInfo GL_UNSIGNED_BYTE)) \<and>
         startOffset t = startIndex t * bytes (GetTypeInfo GL_UNSIGNED_SHORT)"
    using prepareIndexData_cached_use [OF refl nd2 al2 st2 u2, where mem = "[]" and bufferPtr = 7]
      sz2
    unfolding d2 by (simp only: if_True simp_thms) blast
  then obtain t2 where
    e2: "?call2 = (None, t2, ?M, Some (7, ?B2), [])"
    and f2: "indexBuffer t2 = Some (getIndexBuffer scratchCollaborators ?filled)"
      "serial t2 = getSerial scratchCollaborators ?filled"
      "unat (startIndex t2) = (1 mod 2 ^ 32) div unat (bytes (GetTypeInfo GL_UNSIGNED_BYTE))"
      "startOffset t2 = startIndex t2 * bytes (GetTypeInfo GL_UNSIGNED_SHORT)"
    by blast
  from f2(3) have i2: "startIndex t2 = 1"
    by (simp add: word_unat_eq_iff)
  from e2 f2 i2 hd have second:
    "\<exists>t. ?call2 = (None, t, ?M, Some (7, ?B2), []) \<and>
        indexBuffer t = Some 9 \<and> serial t = 4 \<and> startIndex t = 1 \<and> startOffset t = 2"
    by (intro exI [of _ t2]) simp
  from first second show ?thesis
    by (rule conjI)
qed

section \<open>Scenario B: 16-bit indices under the restart workaround\<close>

lemma load_store_GLushorts_append:
  "load_GLushorts (store_GLushorts ws @ bs) = ws @ load_GLushorts bs"
proof (induction ws)
  case Nil
  show ?case by (simp add: store_GLushorts_def)
next
  case (Cons w ws)
  have "store_GLushorts (w # ws) @ bs = store_GLushort w @ (store_GLushorts ws @ bs)"
    by (simp add: store_GLushorts_def)
  with Cons show ?case
    by (simp add: load_store_GLushort)
qed

lemma ConvertIndices_scenario_B:
  "ConvertIndices GL_UNSIGNED_SHORT GL_UNSIGNED_INT (store_GLushorts [5, 65535, 7] @ rest) 3 False
     = Inr (store_GLuints [5, 65535, 7])"
  by (simp add: ConvertIndices_def ConvertIndexArray_def load_store_GLushorts_append)

lemma streamIndexData_success_state:
  assumes "streamIndexData C m data c s d u t = (None, t', m', ev)"
  shows "\<exists>ib m0 ev0 out b1 b2 b3 off.
       getStreamingIndexBuffer C m d = (Inr ib, m0, ev0) \<and>
       ConvertIndices s d data c u = Inr out \<and>
       reserveBufferSpace C ib (push_bit (bytesShift (GetTypeInfo d)) c) d = (None, b1) \<and>
       mapBuffer C b1 (push_bit (bytesShift (GetTypeInfo d)) c) = (Inr off, b2) \<and>
       unmapBuffer C (writeMapped C b2 out) = (None, b3) \<and>
       m' = putStreamingBuffer d b3 m0 \<and>
       t' = t\<lparr>indexBuffer := Some (getIndexBuffer C b3), serial := getSerial C b3,
               startIndex := drop_bit (bytesShift (GetTypeInfo d)) off, startOffset := off\<rparr> \<and>
       ev = ev0 @ [Reserve (streamingSlot d) (push_bit (bytesShift (GetTypeInfo d)) c) d,
                   Map (streamingSlot d) (push_bit (bytesShift (GetTypeInfo d)) c),
                   Write (streamingSlot d) out, Unmap (streamingSlot d)] \<and>
       written ev0 = []"
proof -
  define g where "g = getStreamingIndexBuffer C m d"
  obtain r m0 ev0 where g: "g = (r, m0, ev0)"
    by (cases g) blast
  from assms g obtain ib where r: "r = Inr ib"
    by (cases r) (auto simp: streamIndexData_def Let_def g_def)
  define res where "res = StreamInIndexBuffer C (streamingSlot d) ib data c s d u"
  obtain r2 b3 ev2 where st: "res = (r2, b3, ev2)"
    by (cases res) blast
  from assms g r st obtain off where r2: "r2 = Inr off" and ev: "ev = ev0 @ ev2"
    and m': "m' = putStreamingBuffer d b3 m0"
    and t': "t' = t\<lparr>indexBuffer := Some (getIndexBuffer C b3), serial := getSerial C b3,
               startIndex := drop_bit (bytesShift (GetTypeInfo d)) off, startOffset := off\<rparr>"
    by (cases r2) (auto simp: streamIndexData_def Let_def g_def res_def)
  from st r2 have "StreamInIndexBuffer C (streamingSlot d) ib data c s d u = (Inr off, b3, ev2)"
    by (simp add: res_def)
  from StreamInIndexBuffer_success_state [OF this] obtain out b1 b2 where
    f: "ConvertIndices s d data c u = Inr out"
      "reserveBufferSpace C ib (push_bit (bytesShift (GetTypeInfo d)) c) d = (None, b1)"
      "mapBuffer C b1 (push_bit (bytesShift (GetTypeInfo d)) c) = (Inr off, b2)"
      "unmapBuffer C (writeMapped C b2 out) = (None, b3)"
      "ev2 = [Reserve (streamingSlot d) (push_bit (bytesShift (GetTypeInfo d)) c) d,
             Map (streamingSlot d) (push_bit (bytesShift (GetTypeInfo d)) c),
             Write (streamingSlot d) out, Unmap (streamingSlot d)]"
    by blast
  have gl: "getStreamingIndexBuffer C m d = (Inr ib, m0, ev0)"
    using g r by (simp add: g_def)
  from getStreamingIndexBuffer_log [OF gl] have w: "written ev0 = []" by simp
  from gl f m' t' ev w show ?thesis by blast
qed


text \<open>
  C1, as the code has it. Three 16-bit indices 5, 65535, 7 passed by client pointer to a
  D3D11 manager, with the fixed restart index disabled and a restart index in the range
  metadata: the workaround is active and the destination type is 32-bit, whether the call
  succeeds or not. When it succeeds, twelve bytes are reserved and mapped in the 32-bit
  streaming buffer of the manager, the bytes stored in the mapped region are 5, 65535, 7
  as 32-bit elements, and the buffer so written is the one the manager holds afterwards;
  the descriptor starts at the offset the mapping returned. The value 65535 is widened,
  not replaced by 4294967295: \<^verbatim>\<open>prepareIndexData\<close> hands \<^verbatim>\<open>primitiveRestartFixedIndexEnabled\<close>
  to the converter as its remap flag, and the workaround is active only when that flag is
  false. Widening is what keeps the index 65535 from being read as the 16-bit restart index
  of D3D11.
\<close>

theorem prepareIndexData_scenario_B:
  assumes "mRendererClass m = RENDERER_D3D11"
    and "hasPrimitiveRestartIndex GL_UNSIGNED_SHORT 3 translated"
  shows "indexType (fst (snd (prepareIndexData C m GL_UNSIGNED_SHORT 3 None indices
                (store_GLushorts [5, 65535, 7] @ rest) translated False))) = GL_UNSIGNED_INT \<and>
         (fst (prepareIndexData C m GL_UNSIGNED_SHORT 3 None indices
                (store_GLushorts [5, 65535, 7] @ rest) translated False) = None \<longrightarrow>
          (\<exists>t m1 ib m0 ev0 b1 b2 b3 off.
             prepareIndexData C m GL_UNSIGNED_SHORT 3 None indices
                (store_GLushorts [5, 65535, 7] @ rest) translated False
               = (None, t, m1, None,
                  ev0 @ [Reserve StreamingInt 12 GL_UNSIGNED_INT, Map StreamingInt 12,
                         Write StreamingInt (store_GLuints [5, 65535, 7]),
                         Unmap StreamingInt]) \<and>
             written ev0 = [] \<and>
             getStreamingIndexBuffer C m GL_UNSIGNED_INT = (Inr ib, m0, ev0) \<and>
             reserveBufferSpace C ib 12 GL_UNSIGNED_INT = (None, b1) \<and>
             mapBuffer C b1 12 = (Inr off, b2) \<and>
             unmapBuffer C (writeMapped C b2 (store_GLuints [5, 65535, 7])) = (None, b3) \<and>
             mStreamingBufferInt m1 = Some b3 \<and>
             mStreamingBufferShort m1 = mStreamingBufferShort m \<and>
             indexBuffer t = Some (getIndexBuffer C b3) \<and> serial t = getSerial C b3 \<and>
             startOffset t = off \<and> startIndex t = drop_bit 2 off \<and>
             load_GLuints (store_GLuints [5, 65535, 7]) = [5, 65535, 7]))"
proof -
  define data where "data = store_GLushorts [5, 65535, 7] @ rest"
  define call where "call = prepareIndexData C m GL_UNSIGNED_SHORT 3 None indices data
                              translated False"
  have d: "dstTypeOf (mRendererClass m) GL_UNSIGNED_SHORT 3 translated False = GL_UNSIGNED_INT"
    using assms
    by (simp add: dstTypeOf_def primitiveRestartWorkaround_def UsePrimitiveRestartWorkaround_def)
  have ty: "indexType (fst (snd call)) = GL_UNSIGNED_INT"
    using prepareIndexData_descriptor [of C m GL_UNSIGNED_SHORT 3 None indices data translated
        False] d
    by (simp add: call_def)
  define t1 where "t1 = translated\<lparr>indexType := GL_UNSIGNED_INT,
                       srcIndexData :=
                         (srcIndexData translated)\<lparr>srcBuffer := None,
                                                    srcIndices := indices,
                                                    srcIndexType := GL_UNSIGNED_SHORT,
                                                    srcCount := 3\<rparr>,
                       storage := None\<rparr>"
  define res where "res = streamIndexData C m data 3 GL_UNSIGNED_SHORT GL_UNSIGNED_INT False t1"
  obtain r t m1 ev where s: "res = (r, t, m1, ev)"
    by (cases res) blast
  have p: "call = (r, t, m1, None, ev)"
    using s unfolding call_def prepareIndexData_def Let_def d res_def t1_def by simp
  have "\<exists>t m1 ib m0 ev0 b1 b2 b3 off.
             call = (None, t, m1, None,
                  ev0 @ [Reserve StreamingInt 12 GL_UNSIGNED_INT, Map StreamingInt 12,
                         Write StreamingInt (store_GLuints [5, 65535, 7]),
                         Unmap StreamingInt]) \<and>
             written ev0 = [] \<and>
             getStreamingIndexBuffer C m GL_UNSIGNED_INT = (Inr ib, m0, ev0) \<and>
             reserveBufferSpace C ib 12 GL_UNSIGNED_INT = (None, b1) \<and>
             mapBuffer C b1 12 = (Inr off, b2) \<and>
             unmapBuffer C (writeMapped C b2 (store_GLuints [5, 65535, 7])) = (None, b3) \<and>
             mStreamingBufferInt m1 = Some b3 \<and>
             mStreamingBufferShort m1 = mStreamingBufferShort m \<and>
             indexBuffer t = Some (getIndexBuffer C b3) \<and> serial t = getSerial C b3 \<and>
             startOffset t = off \<and> startIndex t = drop_bit 2 off \<and>
             load_GLuints (store_GLuints [5, 65535, 7]) = [5, 65535, 7]"
    if ok: "fst call = None"
  proof -
    from p ok have r: "r = None" by simp
    from s r have s': "streamIndexData C m data 3 GL_UNSIGNED_SHORT GL_UNSIGNED_INT False t1
        = (None, t, m1, ev)"
      by (simp add: res_def)
    from streamIndexData_success_state [OF s'] obtain ib m0 ev0 out b1 b2 b3 off where
      f: "getStreamingIndexBuffer C m GL_UNSIGNED_INT = (Inr ib, m0, ev0)"
        "ConvertIndices GL_UNSIGNED_SHORT GL_UNSIGNED_INT data 3 False = Inr out"
        "reserveBufferSpace C ib (push_bit (bytesShift (GetTypeInfo GL_UNSIGNED_INT)) 3)
           GL_UNSIGNED_INT = (None, b1)"
        "mapBuffer C b1 (push_bit (bytesShift (GetTypeInfo GL_UNSIGNED_INT)) 3) = (Inr off, b2)"
        "unmapBuffer C (writeMapped C b2 out) = (None, b3)"
        "m1 = putStreamingBuffer GL_UNSIGNED_INT b3 m0"
        "t = t1\<lparr>indexBuffer := Some (getIndexBuffer C b3), serial := getSerial C b3,
               startIndex := drop_bit (bytesShift (GetTypeInfo GL_UNSIGNED_INT)) off,
               startOffset := off\<rparr>"
        "ev = ev0 @ [Reserve (streamingSlot GL_UNSIGNED_INT)
                       (push_bit (bytesShift (GetTypeInfo GL_UNSIGNED_INT)) 3) GL_UNSIGNED_INT,
                     Map (streamingSlot GL_UNSIGNED_INT)
                       (push_bit (bytesShift (GetTypeInfo GL_UNSIGNED_INT)) 3),
                     Write (streamingSlot GL_UNSIGNED_INT) out,
                     Unmap (streamingSlot GL_UNSIGNED_INT)]"
        "written ev0 = []"
      by blast
    have out: "out = store_GLuints [5, 65535, 7]"
      using f(2) by (simp add: data_def ConvertIndices_scenario_B)
    have twelve: "push_bit (bytesShift (GetTypeInfo GL_UNSIGNED_INT)) (3 :: GLuint) = 12"
      by simp
    have short: "mStreamingBufferShort m0 = mStreamingBufferShort m"
      using f(1)
      by (auto simp: getStreamingIndexBuffer_def putStreamingBuffer_def
          split: option.splits prod.splits)
    have m1: "mStreamingBufferInt m1 = Some b3" "mStreamingBufferShort m1 = mStreamingBufferShort m"
      using f(6) short by (simp_all add: putStreamingBuffer_def)
    have tf: "indexBuffer t = Some (getIndexBuffer C b3)" "serial t = getSerial C b3"
      "startOffset t = off" "startIndex t = drop_bit 2 off"
      using f(7) by simp_all
    have e: "ev = ev0 @ [Reserve StreamingInt 12 GL_UNSIGNED_INT, Map StreamingInt 12,
                         Write StreamingInt (store_GLuints [5, 65535, 7]), Unmap StreamingInt]"
      using f(8) out by (simp add: streamingSlot_def)
    have "call = (None, t, m1, None,
                  ev0 @ [Reserve StreamingInt 12 GL_UNSIGNED_INT, Map StreamingInt 12,
                         Write StreamingInt (store_GLuints [5, 65535, 7]), Unmap StreamingInt])"
      using p r e by simp
    with f(1,3,4,5,9) m1 tf show ?thesis
      unfolding out twelve by (simp add: load_store_GLuints)
  qed
  with ty show ?thesis
    unfolding call_def data_def by blast
qed


text \<open>
  The run of scenario B on the scratch collaborators: the elements stored, and held by the
  32-bit streaming buffer afterwards, are 5, 65535, 7 and not 5, 4294967295, 7.
\<close>

theorem prepareIndexData_scenario_B_counterexample:
  "fst (prepareIndexData scratchCollaborators (freshManager RENDERER_D3D11) GL_UNSIGNED_SHORT 3
          None 4096 (store_GLushorts [5, 65535, 7]) (blankTranslated 65535 3) False) = None \<and>
   indexType (fst (snd (prepareIndexData scratchCollaborators (freshManager RENDERER_D3D11)
          GL_UNSIGNED_SHORT 3 None 4096 (store_GLushorts [5, 65535, 7])
          (blankTranslated 65535 3) False))) = GL_UNSIGNED_INT \<and>
   map (\<lambda>(w, bs). (w, load_GLuints bs))
     (written (snd (snd (snd (snd (prepareIndexData scratchCollaborators
          (freshManager RENDERER_D3D11) GL_UNSIGNED_SHORT 3 None 4096
          (store_GLushorts [5, 65535, 7]) (blankTranslated 65535 3) False))))))
     = [(StreamingInt, [5, 65535, 7])] \<and>
   map (\<lambda>(w, bs). (w, load_GLuints bs))
     (written (snd (snd (snd (snd (prepareIndexData scratchCollaborators
          (freshManager RENDERER_D3D11) GL_UNSIGNED_SHORT 3 None 4096
          (store_GLushorts [5, 65535, 7]) (blankTranslated 65535 3) False))))))
     \<noteq> [(StreamingInt, [5, 4294967295, 7])] \<and>
   map_option (\<lambda>b. load_GLuints (content b))
     (mStreamingBufferInt (fst (snd (snd (prepareIndexData scratchCollaborators
          (freshManager RENDERER_D3D11) GL_UNSIGNED_SHORT 3 None 4096
          (store_GLushorts [5, 65535, 7]) (blankTranslated 65535 3) False)))))
     = Some [5, 65535, 7] \<and>
   map_option (\<lambda>b. load_GLuints (content b))
     (mStreamingBufferInt (fst (snd (snd (prepareIndexData scratchCollaborators
          (freshManager RENDERER_D3D11) GL_UNSIGNED_SHORT 3 None 4096
          (store_GLushorts [5, 65535, 7]) (blankTranslated 65535 3) False)))))
     \<noteq> Some [5, 4294967295, 7]"
  by code_simp

theorem prepareIndexData_scenario_B_witness:
  "mRendererClass (freshManager RENDERER_D3D11) = RENDERER_D3D11 \<and>
   hasPrimitiveRestartIndex GL_UNSIGNED_SHORT 3 (blankTranslated 65535 3) \<and>
   indexType (fst (snd (prepareIndexData scratchCollaborators (freshManager RENDERER_D3D11)
          GL_UNSIGNED_SHORT 3 None 4096 (store_GLushorts [5, 65535, 7] @ [])
          (blankTranslated 65535 3) False))) = GL_UNSIGNED_INT \<and>
   (\<exists>t m1 b3 ev0.
      prepareIndexData scratchCollaborators (freshManager RENDERER_D3D11) GL_UNSIGNED_SHORT 3
          None 4096 (store_GLushorts [5, 65535, 7] @ []) (blankTranslated 65535 3) False
        = (None, t, m1, None,
           ev0 @ [Reserve StreamingInt 12 GL_UNSIGNED_INT, Map StreamingInt 12,
                  Write StreamingInt (store_GLuints [5, 65535, 7]), Unmap StreamingInt]) \<and>
      mStreamingBufferInt m1 = Some b3 \<and> mStreamingBufferShort m1 = None \<and>
      content b3 = store_GLuints [5, 65535, 7] \<and> width b3 = GL_UNSIGNED_INT \<and>
      indexBuffer t = Some (handle b3) \<and> startOffset t = 0 \<and> startIndex t = 0)"
proof -
  let ?call = "prepareIndexData scratchCollaborators (freshManager RENDERER_D3D11)
          GL_UNSIGNED_SHORT 3 None 4096 (store_GLushorts [5, 65535, 7] @ [])
          (blankTranslated 65535 3) False"
  have h1: "mRendererClass (freshManager RENDERER_D3D11) = RENDERER_D3D11"
    by (simp add: freshManager_def)
  have h2: "hasPrimitiveRestartIndex GL_UNSIGNED_SHORT 3 (blankTranslated 65535 3)"
    by (simp add: hasPrimitiveRestartIndex_def blankTranslated_def)
  have ok: "fst ?call = None"
    by code_simp
  have c: "map_option content (mStreamingBufferInt (fst (snd (snd ?call))))
             = Some (store_GLuints [5, 65535, 7])"
    "map_option width (mStreamingBufferInt (fst (snd (snd ?call)))) = Some GL_UNSIGNED_INT"
    "startOffset (fst (snd ?call)) = 0"
    by code_simp+
  have hd: "getIndexBuffer scratchCollaborators b = handle b" for b
    by (simp add: scratchCollaborators_def)
  have sh: "mStreamingBufferShort (freshManager RENDERER_D3D11) = None"
    by (simp add: freshManager_def)
  from prepareIndexData_scenario_B [OF h1 h2, of scratchCollaborators 4096 "[]"] ok
  obtain t m1 ev0 b3 off where
    eq: "?call = (None, t, m1, None,
           ev0 @ [Reserve StreamingInt 12 GL_UNSIGNED_INT, Map StreamingInt 12,
                  Write StreamingInt (store_GLuints [5, 65535, 7]), Unmap StreamingInt])"
    and f: "mStreamingBufferInt m1 = Some b3"
      "mStreamingBufferShort m1 = mStreamingBufferShort (freshManager RENDERER_D3D11)"
      "indexBuffer t = Some (getIndexBuffer scratchCollaborators b3)"
      "startOffset t = off" "startIndex t = drop_bit 2 off"
    and ty: "indexType (fst (snd ?call)) = GL_UNSIGNED_INT"
    by blast
  from eq c f(1) have cb: "content b3 = store_GLuints [5, 65535, 7]" "width b3 = GL_UNSIGNED_INT"
    by simp_all
  from eq c(3) f(4) have off: "off = 0" by simp
  from eq f cb off ty h1 h2 show ?thesis
    unfolding hd sh by simp
qed

end
